theory Spec2Isabelle
  imports Complex_Main "HOL-Library.Word"
begin

section \<open>Data model of SceneManager.cpp\<close>

text \<open>
  \<open>GLuint\<close> is OpenGL's unsigned 32-bit integer. A C++ \<open>float\<close> is carried as a
  \<open>real\<close>: SceneManager.cpp itself performs no arithmetic on floats, it only hands them
  to GLM and to the shader manager, so no rounding is modelled here.
\<close>

type_synonym GLuint = "32 word"
type_synonym float = real
type_synonym vec2 = "float \<times> float"
type_synonym vec3 = "float \<times> float \<times> float"
type_synonym vec4 = "float \<times> float \<times> float \<times> float"
type_synonym mat4 = "vec4 \<times> vec4 \<times> vec4 \<times> vec4"

text \<open>
  \<open>TEXTURE_INFO\<close> and \<open>OBJECT_MATERIAL\<close> are declared in SceneManager.h; the fields are
  the ones SceneManager.cpp reads and writes. \<open>ID\<close> is a \<open>GLuint\<close>: its address is
  passed to \<open>glDeleteTextures\<close>.
\<close>

record TEXTURE_INFO =
  tag :: string
  ID :: GLuint

record OBJECT_MATERIAL =
  diffuseColor :: vec3
  specularColor :: vec3
  shininess :: float
  tag :: string

subsection \<open>Collaborators: GLM, the image decoder, OpenGL, the shader manager\<close>

text \<open>
  The GLM functions that \<open>SetTransformations\<close> calls and the \<open>*\<close> of \<open>glm::mat4\<close>
  are library code; they are parameters of the model.
\<close>

record glm =
  glm_radians :: "float \<Rightarrow> float"
  glm_scale :: "vec3 \<Rightarrow> mat4"
  glm_rotate :: "float \<Rightarrow> vec3 \<Rightarrow> mat4"
  glm_translate :: "vec3 \<Rightarrow> mat4"
  glm_mul :: "mat4 \<Rightarrow> mat4 \<Rightarrow> mat4"

text \<open>What \<open>stbi_load\<close> hands back for a file that decodes.\<close>

record stb_image =
  image_data :: "8 word list"
  width :: int
  height :: int
  colorChannels :: int

datatype gl_pname =
  GL_TEXTURE_WRAP_S | GL_TEXTURE_WRAP_T | GL_TEXTURE_MIN_FILTER | GL_TEXTURE_MAG_FILTER

datatype gl_param = GL_CLAMP_TO_EDGE | GL_REPEAT | GL_LINEAR

datatype gl_format = GL_RGBA | GL_RGB

text \<open>
  The OpenGL commands SceneManager.cpp issues, in the order the context receives them
  (the target is always \<open>GL_TEXTURE_2D\<close>). \<open>glGenTextures\<close> carries the name the
  driver returned, \<open>glActiveTexture i\<close> stands for unit \<open>GL_TEXTURE0 + i\<close>.
\<close>

datatype gl_call =
  glGenTextures GLuint
| glBindTexture GLuint
| glTexParameteri gl_pname gl_param
| glTexImage2D gl_format int int "8 word list"
| glGenerateMipmap
| glActiveTexture int
| glDeleteTextures GLuint

text \<open>
  The decoder (with the vertical flip that \<open>CreateGLTexture\<close> always switches on first)
  and the texture name the driver hands out after a given command history.
\<close>

record collaborators =
  stbi_load :: "string \<Rightarrow> stb_image option"
  gl_new_name :: "gl_call list \<Rightarrow> GLuint"

datatype uniform_value =
  IntValue int
| BoolValue bool
| FloatValue float
| Vec2Value vec2
| Vec3Value vec3
| Vec4Value vec4
| Mat4Value mat4
| Sampler2DValue int

text \<open>
  Modelled from the spec: the ShaderManager class (ShaderManager.cpp is not part of the
  sources). The spec describes it as a sink with typed setters keyed by the uniform's name;
  the model keeps every setter call, oldest first, and a uniform's current value is the
  last one written under its name.
\<close>

record ShaderManager =
  uniform_writes :: "(string \<times> uniform_value) list"

definition set_uniform :: "string \<Rightarrow> uniform_value \<Rightarrow> ShaderManager \<Rightarrow> ShaderManager" where
  "set_uniform name v sh = sh\<lparr>uniform_writes := uniform_writes sh @ [(name, v)]\<rparr>"

definition uniform :: "ShaderManager \<Rightarrow> string \<Rightarrow> uniform_value option" where
  "uniform sh name = map_of (rev (uniform_writes sh)) name"

definition setIntValue :: "string \<Rightarrow> int \<Rightarrow> ShaderManager \<Rightarrow> ShaderManager" where
  "setIntValue name v = set_uniform name (IntValue v)"

definition setBoolValue :: "string \<Rightarrow> bool \<Rightarrow> ShaderManager \<Rightarrow> ShaderManager" where
  "setBoolValue name v = set_uniform name (BoolValue v)"

definition setFloatValue :: "string \<Rightarrow> float \<Rightarrow> ShaderManager \<Rightarrow> ShaderManager" where
  "setFloatValue name v = set_uniform name (FloatValue v)"

definition setVec2Value :: "string \<Rightarrow> vec2 \<Rightarrow> ShaderManager \<Rightarrow> ShaderManager" where
  "setVec2Value name v = set_uniform name (Vec2Value v)"

definition setVec3Value :: "string \<Rightarrow> vec3 \<Rightarrow> ShaderManager \<Rightarrow> ShaderManager" where
  "setVec3Value name v = set_uniform name (Vec3Value v)"

definition setVec4Value :: "string \<Rightarrow> vec4 \<Rightarrow> ShaderManager \<Rightarrow> ShaderManager" where
  "setVec4Value name v = set_uniform name (Vec4Value v)"

definition setMat4Value :: "string \<Rightarrow> mat4 \<Rightarrow> ShaderManager \<Rightarrow> ShaderManager" where
  "setMat4Value name v = set_uniform name (Mat4Value v)"

definition setSampler2DValue :: "string \<Rightarrow> int \<Rightarrow> ShaderManager \<Rightarrow> ShaderManager" where
  "setSampler2DValue name v = set_uniform name (Sampler2DValue v)"

subsection \<open>The scene manager's state\<close>

text \<open>
  The members of the class that the modelled methods touch, and the two pieces of the
  world they write to: the OpenGL context (\<open>gl\<close>, the commands received so far) and
  standard output (\<open>console\<close>, one entry per line). \<open>m_pShaderManager\<close> is a pointer:
  \<open>None\<close> is \<open>NULL\<close>. \<open>m_textureIDs\<close> is a C array; its length never changes.
\<close>

record SceneManager =
  m_pShaderManager :: "ShaderManager option"
  m_textureIDs :: "TEXTURE_INFO list"
  m_loadedTextures :: int
  m_objectMaterials :: "OBJECT_MATERIAL list"
  gl :: "gl_call list"
  console :: "string list"

text \<open>
  A method either returns (with its return value and the state it leaves) or reaches
  undefined behaviour of C++: a write past the end of \<open>m_textureIDs\<close>, a call through
  a null \<open>m_pShaderManager\<close>. \<open>Undefined\<close> keeps the state at that point.
\<close>

datatype 'a outcome = Returns 'a SceneManager | Undefined SceneManager

text \<open>The names of the uniforms, from the anonymous namespace at the top of the file.\<close>

definition g_ModelName :: string where "g_ModelName = ''model''"
definition g_ColorValueName :: string where "g_ColorValueName = ''objectColor''"
definition g_TextureValueName :: string where "g_TextureValueName = ''objectTexture''"
definition g_UseTextureName :: string where "g_UseTextureName = ''bUseTexture''"
definition g_UseLightingName :: string where "g_UseLightingName = ''bUseLighting''"

text \<open>
  The constructor: sixteen slots, each with the tag \<open>"/0"\<close> and the ID \<open>-1\<close> (which
  wraps to \<open>0xFFFFFFFF\<close> in a \<open>GLuint\<close>), no texture loaded, an empty material vector.
  It is given the context and the output it finds.
\<close>

definition SceneManager_ctor ::
  "ShaderManager option \<Rightarrow> gl_call list \<Rightarrow> string list \<Rightarrow> SceneManager" where
  "SceneManager_ctor pShaderManager g out =
     \<lparr>m_pShaderManager = pShaderManager,
      m_textureIDs = replicate 16 \<lparr>TEXTURE_INFO.tag = ''/0'', ID = - 1\<rparr>,
      m_loadedTextures = 0,
      m_objectMaterials = [],
      gl = g,
      console = out\<rparr>"

text \<open>
  The invariant of the texture table: the array has its sixteen elements and the count
  lies within it. The loops below read \<open>m_textureIDs[i]\<close> only for
  \<open>0 \<le> i < m_loadedTextures\<close>, which is inside the array exactly under this invariant.
\<close>

definition table_ok :: "SceneManager \<Rightarrow> bool" where
  "table_ok s \<longleftrightarrow>
     length (m_textureIDs s) = 16 \<and> 0 \<le> m_loadedTextures s \<and> m_loadedTextures s \<le> 16"

section \<open>The texture table\<close>

text \<open>
  \<open>CreateGLTexture\<close> (lines 71-119). A file that does not decode prints a line and
  returns \<open>false\<close>. Otherwise the texture is generated, configured and uploaded, and only
  then the slot \<open>m_textureIDs[m_loadedTextures]\<close> is written: the source does not compare
  the count with the length of the array, so with every slot taken the writes land past
  its end. \<open>stbi_image_free\<close> releases the decoder's buffer and leaves no trace in the
  state.
\<close>

definition CreateGLTexture ::
  "collaborators \<Rightarrow> string \<Rightarrow> string \<Rightarrow> SceneManager \<Rightarrow> bool outcome" where
  "CreateGLTexture co filename tg s =
     (case stbi_load co filename of
        None \<Rightarrow>
          Returns False (s\<lparr>console := console s @ [''Failed to load texture:'' @ filename]\<rparr>)
      | Some img \<Rightarrow>
          (let textureID = gl_new_name co (gl s);
               wrap = (if tg = ''panda'' \<or> tg = ''thinkpad'' then GL_CLAMP_TO_EDGE else GL_REPEAT);
               format = (if colorChannels img = 4 then GL_RGBA else GL_RGB);
               s1 = s\<lparr>gl := gl s @
                      [glGenTextures textureID,
                       glBindTexture textureID,
                       glTexParameteri GL_TEXTURE_WRAP_S wrap,
                       glTexParameteri GL_TEXTURE_WRAP_T wrap,
                       glTexParameteri GL_TEXTURE_MIN_FILTER GL_LINEAR,
                       glTexParameteri GL_TEXTURE_MAG_FILTER GL_LINEAR,
                       glTexImage2D format (width img) (height img) (image_data img),
                       glGenerateMipmap,
                       glBindTexture 0]\<rparr>;
               n = m_loadedTextures s1
           in if 0 \<le> n \<and> n < int (length (m_textureIDs s1))
              then Returns True
                     (s1\<lparr>m_textureIDs :=
                           (m_textureIDs s1)
                             [nat n := (m_textureIDs s1 ! nat n)\<lparr>ID := textureID, TEXTURE_INFO.tag := tg\<rparr>],
                         m_loadedTextures := n + 1\<rparr>)
              else Undefined s1))"

text \<open>\<open>BindGLTextures\<close> (lines 128-136): slot \<open>i\<close> is bound on texture unit \<open>i\<close>.\<close>

function BindGLTextures_for :: "int \<Rightarrow> SceneManager \<Rightarrow> SceneManager" where
  "BindGLTextures_for i s =
     (if i < m_loadedTextures s
      then BindGLTextures_for (i + 1)
             (s\<lparr>gl := gl s @ [glActiveTexture i, glBindTexture (ID (m_textureIDs s ! nat i))]\<rparr>)
      else s)"
  by pat_completeness auto
termination
  by (relation "measure (\<lambda>(i, s). nat (m_loadedTextures s - i))") auto

declare BindGLTextures_for.simps [simp del]

definition BindGLTextures :: "SceneManager \<Rightarrow> SceneManager" where
  "BindGLTextures s = BindGLTextures_for 0 s"

text \<open>
  \<open>DestroyGLTextures\<close> (lines 144-154): every registered slot whose ID is not 0 is
  deleted and its ID set to 0; then the count is reset.
\<close>

function DestroyGLTextures_for :: "int \<Rightarrow> SceneManager \<Rightarrow> SceneManager" where
  "DestroyGLTextures_for i s =
     (if i < m_loadedTextures s
      then DestroyGLTextures_for (i + 1)
             (if ID (m_textureIDs s ! nat i) \<noteq> 0
              then s\<lparr>gl := gl s @ [glDeleteTextures (ID (m_textureIDs s ! nat i))],
                     m_textureIDs := (m_textureIDs s)[nat i := (m_textureIDs s ! nat i)\<lparr>ID := 0\<rparr>]\<rparr>
              else s)
      else s)"
  by pat_completeness auto
termination
  by (relation "measure (\<lambda>(i, s). nat (m_loadedTextures s - i))") auto

declare DestroyGLTextures_for.simps [simp del]

definition DestroyGLTextures :: "SceneManager \<Rightarrow> SceneManager" where
  "DestroyGLTextures s = (DestroyGLTextures_for 0 s)\<lparr>m_loadedTextures := 0\<rparr>"

text \<open>
  \<open>FindTextureID\<close> (lines 163-181). The loop state is the three locals
  \<open>(textureID, index, bFound)\<close>; the \<open>GLuint\<close> of the slot is converted to the
  \<open>int\<close> the method returns.
\<close>

function FindTextureID_while ::
  "SceneManager \<Rightarrow> string \<Rightarrow> int \<times> int \<times> bool \<Rightarrow> int \<times> int \<times> bool" where
  "FindTextureID_while s tg (textureID, index, bFound) =
     (if index < m_loadedTextures s \<and> bFound = False
      then (if TEXTURE_INFO.tag (m_textureIDs s ! nat index) = tg
            then FindTextureID_while s tg (sint (ID (m_textureIDs s ! nat index)), index, True)
            else FindTextureID_while s tg (textureID, index + 1, bFound))
      else (textureID, index, bFound))"
  by pat_completeness auto
termination
  by (relation "measure (\<lambda>(s, tg, t, i, b). if b then 0 else 1 + nat (m_loadedTextures s - i))")
     auto

declare FindTextureID_while.simps [simp del]

definition FindTextureID :: "SceneManager \<Rightarrow> string \<Rightarrow> int" where
  "FindTextureID s tg = fst (FindTextureID_while s tg (- 1, 0, False))"

text \<open>\<open>FindTextureSlot\<close> (lines 189-207): the same loop, keeping the index.\<close>

function FindTextureSlot_while ::
  "SceneManager \<Rightarrow> string \<Rightarrow> int \<times> int \<times> bool \<Rightarrow> int \<times> int \<times> bool" where
  "FindTextureSlot_while s tg (textureSlot, index, bFound) =
     (if index < m_loadedTextures s \<and> bFound = False
      then (if TEXTURE_INFO.tag (m_textureIDs s ! nat index) = tg
            then FindTextureSlot_while s tg (index, index, True)
            else FindTextureSlot_while s tg (textureSlot, index + 1, bFound))
      else (textureSlot, index, bFound))"
  by pat_completeness auto
termination
  by (relation "measure (\<lambda>(s, tg, t, i, b). if b then 0 else 1 + nat (m_loadedTextures s - i))")
     auto

declare FindTextureSlot_while.simps [simp del]

definition FindTextureSlot :: "SceneManager \<Rightarrow> string \<Rightarrow> int" where
  "FindTextureSlot s tg = fst (FindTextureSlot_while s tg (- 1, 0, False))"

section \<open>The material registry\<close>

text \<open>
  \<open>FindMaterial\<close> (lines 216-241). The result is the returned \<open>bool\<close> together with
  the contents of the reference parameter \<open>material\<close> on return; only the three
  reflectance fields are copied into it. The value returned after the loop is the
  constant \<open>true\<close> of line 240, whatever \<open>bFound\<close> holds.
\<close>

function FindMaterial_while ::
  "SceneManager \<Rightarrow> string \<Rightarrow> OBJECT_MATERIAL \<times> int \<times> bool \<Rightarrow> OBJECT_MATERIAL \<times> int \<times> bool" where
  "FindMaterial_while s tg (material, index, bFound) =
     (if index < int (length (m_objectMaterials s)) \<and> bFound = False
      then (if OBJECT_MATERIAL.tag (m_objectMaterials s ! nat index) = tg
            then FindMaterial_while s tg
                   (material\<lparr>diffuseColor := diffuseColor (m_objectMaterials s ! nat index),
                             specularColor := specularColor (m_objectMaterials s ! nat index),
                             shininess := shininess (m_objectMaterials s ! nat index)\<rparr>,
                    index, True)
            else FindMaterial_while s tg (material, index + 1, bFound))
      else (material, index, bFound))"
  by pat_completeness auto
termination
  by (relation "measure (\<lambda>(s, tg, m, i, b).
        if b then 0 else 1 + nat (int (length (m_objectMaterials s)) - i))")
     auto

declare FindMaterial_while.simps [simp del]

definition FindMaterial :: "SceneManager \<Rightarrow> string \<Rightarrow> OBJECT_MATERIAL \<Rightarrow> bool \<times> OBJECT_MATERIAL" where
  "FindMaterial s tg material =
     (if length (m_objectMaterials s) = 0 then (False, material)
      else (True, fst (FindMaterial_while s tg (material, 0, False))))"

text \<open>
  \<open>DefineObjectMaterials\<close> (lines 341-406): eight \<open>push_back\<close>s. A decimal stands for
  the \<open>float\<close> literal of the source.
\<close>

definition DefineObjectMaterials :: "SceneManager \<Rightarrow> SceneManager" where
  "DefineObjectMaterials s =
     s\<lparr>m_objectMaterials := m_objectMaterials s @
       [\<lparr>diffuseColor = (0.6, 0.6, 0.6), specularColor = (0.8, 0.8, 0.8),
         shininess = 300, tag = ''plastic''\<rparr>,
        \<lparr>diffuseColor = (0.1, 0.1, 0.1), specularColor = (0.5, 0.5, 0.5),
         shininess = 150, tag = ''hardplastic''\<rparr>,
        \<lparr>diffuseColor = (0.55, 0.27, 0.07), specularColor = (0.1, 0.05, 0.02),
         shininess = 20, tag = ''wood''\<rparr>,
        \<lparr>diffuseColor = (0.9, 0.9, 0.9), specularColor = (0.2, 0.2, 0.2),
         shininess = 2, tag = ''silicone''\<rparr>,
        \<lparr>diffuseColor = (0.65, 0.45, 0.3), specularColor = (0.05, 0.05, 0.05),
         shininess = 1, tag = ''rug''\<rparr>,
        \<lparr>diffuseColor = (0.55, 0.55, 0.55), specularColor = (0.2, 0.2, 0.2),
         shininess = 5, tag = ''wall''\<rparr>,
        \<lparr>diffuseColor = (0.7, 0.7, 0.7), specularColor = (1, 1, 1),
         shininess = 300, tag = ''metal''\<rparr>,
        \<lparr>diffuseColor = (0.1, 0.1, 0.1), specularColor = (0.9, 0.9, 0.9),
         shininess = 500, tag = ''window''\<rparr>]\<rparr>"

section \<open>The transform and shader-state pipeline\<close>

text \<open>
  \<open>SetTransformations\<close> (lines 249-279). The five matrices are computed whether or not
  there is a shader manager; \<open>a * b * c * d * e\<close> of C++ associates to the left.
\<close>

definition SetTransformations ::
  "glm \<Rightarrow> vec3 \<Rightarrow> float \<Rightarrow> float \<Rightarrow> float \<Rightarrow> vec3 \<Rightarrow> SceneManager \<Rightarrow> SceneManager" where
  "SetTransformations g scaleXYZ XrotationDegrees YrotationDegrees ZrotationDegrees positionXYZ s =
     (let scale = glm_scale g scaleXYZ;
          rotationX = glm_rotate g (glm_radians g XrotationDegrees) (1, 0, 0);
          rotationY = glm_rotate g (glm_radians g YrotationDegrees) (0, 1, 0);
          rotationZ = glm_rotate g (glm_radians g ZrotationDegrees) (0, 0, 1);
          translation = glm_translate g positionXYZ;
          modelView =
            glm_mul g (glm_mul g (glm_mul g (glm_mul g translation rotationZ) rotationY) rotationX)
              scale
      in case m_pShaderManager s of
           None \<Rightarrow> s
         | Some sh \<Rightarrow> s\<lparr>m_pShaderManager := Some (setMat4Value g_ModelName modelView sh)\<rparr>)"

text \<open>
  \<open>SetShaderColor\<close> (lines 287-306): \<open>false\<close> converts to the \<open>int\<close> 0 that
  \<open>setIntValue\<close> takes.
\<close>

definition SetShaderColor :: "float \<Rightarrow> float \<Rightarrow> float \<Rightarrow> float \<Rightarrow> SceneManager \<Rightarrow> SceneManager" where
  "SetShaderColor redColorValue greenColorValue blueColorValue alphaValue s =
     (let currentColor = (redColorValue, greenColorValue, blueColorValue, alphaValue)
      in case m_pShaderManager s of
           None \<Rightarrow> s
         | Some sh \<Rightarrow>
             s\<lparr>m_pShaderManager :=
                 Some (setVec4Value g_ColorValueName currentColor
                        (setIntValue g_UseTextureName 0 sh))\<rparr>)"

text \<open>
  \<open>SetShaderMaterial\<close> (lines 314-332). The local \<open>material\<close> is declared without an
  initialiser; \<open>material0\<close> is whatever it holds before \<open>FindMaterial\<close> is called.
  The three setters are called through \<open>m_pShaderManager\<close> without a null test.
\<close>

definition SetShaderMaterial :: "OBJECT_MATERIAL \<Rightarrow> string \<Rightarrow> SceneManager \<Rightarrow> unit outcome" where
  "SetShaderMaterial material0 materialTag s =
     (if length (m_objectMaterials s) > 0
      then (case FindMaterial s materialTag material0 of
              (bReturn, material) \<Rightarrow>
                if bReturn = True
                then (case m_pShaderManager s of
                        None \<Rightarrow> Undefined s
                      | Some sh \<Rightarrow>
                          Returns ()
                            (s\<lparr>m_pShaderManager :=
                                Some (setFloatValue ''material.shininess'' (shininess material)
                                       (setVec3Value ''material.specularColor'' (specularColor material)
                                         (setVec3Value ''material.diffuseColor'' (diffuseColor material)
                                            sh)))\<rparr>))
                else Returns () s)
      else Returns () s)"

text \<open>
  \<open>SetShaderTexture\<close> (lines 460-471): \<open>true\<close> converts to the \<open>int\<close> 1; the value
  of \<open>FindTextureSlot\<close> goes to the sampler as it is.
\<close>

definition SetShaderTexture :: "string \<Rightarrow> SceneManager \<Rightarrow> SceneManager" where
  "SetShaderTexture textureTag s =
     (case m_pShaderManager s of
        None \<Rightarrow> s
      | Some sh \<Rightarrow>
          (let sh1 = setIntValue g_UseTextureName 1 sh;
               textureID = FindTextureSlot s textureTag
           in s\<lparr>m_pShaderManager := Some (setSampler2DValue g_TextureValueName textureID sh1)\<rparr>))"

text \<open>\<open>SetTextureUVScale\<close> (lines 479-485).\<close>

definition SetTextureUVScale :: "float \<Rightarrow> float \<Rightarrow> SceneManager \<Rightarrow> SceneManager" where
  "SetTextureUVScale u v s =
     (case m_pShaderManager s of
        None \<Rightarrow> s
      | Some sh \<Rightarrow> s\<lparr>m_pShaderManager := Some (setVec2Value ''UVscale'' (u, v) sh)\<rparr>)"

section \<open>Sequences of calls and observations\<close>

text \<open>
  Several \<open>CreateGLTexture\<close> calls in a row, each given as (file name, tag); the
  result is the list of the values returned. Undefined behaviour ends the run.
\<close>

fun CreateGLTextures ::
  "collaborators \<Rightarrow> (string \<times> string) list \<Rightarrow> SceneManager \<Rightarrow> bool list outcome" where
  "CreateGLTextures co [] s = Returns [] s"
| "CreateGLTextures co ((filename, tg) # rest) s =
     (case CreateGLTexture co filename tg s of
        Undefined s' \<Rightarrow> Undefined s'
      | Returns b s' \<Rightarrow>
          (case CreateGLTextures co rest s' of
             Undefined s'' \<Rightarrow> Undefined s''
           | Returns bs s'' \<Rightarrow> Returns (b # bs) s''))"

text \<open>
  \<open>LoadSceneTextures\<close> (lines 501-561): sixteen \<open>CreateGLTexture\<close> calls, whose
  return values are dropped, then \<open>BindGLTextures\<close>.
\<close>

definition scene_textures :: "(string \<times> string) list" where
  "scene_textures =
     [(''../5-2_Assignment/textures/keyboard.png'', ''keyboard''),
      (''../5-2_Assignment/textures/thinkpad.png'', ''thinkpad''),
      (''../5-2_Assignment/textures/circular-brushed-gold-texture.jpg'', ''hinge''),
      (''../5-2_Assignment/textures/wood1.jpg'', ''wood1''),
      (''../5-2_Assignment/textures/wood2.jpg'', ''wood2''),
      (''../5-2_Assignment/textures/couch.jpg'', ''couch''),
      (''../5-2_Assignment/textures/zipper.png'', ''zipper''),
      (''../5-2_Assignment/textures/panda.png'', ''panda''),
      (''../5-2_Assignment/textures/rug.jpg'', ''rug''),
      (''../5-2_Assignment/textures/screen.jpg'', ''screen''),
      (''../5-2_Assignment/textures/laptoptexture.jpg'', ''pctexture''),
      (''../5-2_Assignment/textures/i7logo.jpg'', ''i7''),
      (''../5-2_Assignment/textures/suitcase.jpg'', ''suitcase''),
      (''../5-2_Assignment/textures/window.png'', ''window''),
      (''../5-2_Assignment/textures/rusticwood.jpg'', ''rusticwood''),
      (''../5-2_Assignment/textures/whitewood.jpg'', ''whitewood'')]"

definition LoadSceneTextures :: "collaborators \<Rightarrow> SceneManager \<Rightarrow> unit outcome" where
  "LoadSceneTextures co s =
     (case CreateGLTextures co scene_textures s of
        Undefined s' \<Rightarrow> Undefined s'
      | Returns bReturn s' \<Rightarrow> Returns () (BindGLTextures s'))"

text \<open>
  What the table holds: the tags and the IDs of the slots below \<open>m_loadedTextures\<close>,
  in slot order. These are the slots the lookups scan.
\<close>

definition registered_tags :: "SceneManager \<Rightarrow> string list" where
  "registered_tags s =
     map TEXTURE_INFO.tag (take (nat (m_loadedTextures s)) (m_textureIDs s))"

definition registered_IDs :: "SceneManager \<Rightarrow> GLuint list" where
  "registered_IDs s = map ID (take (nat (m_loadedTextures s)) (m_textureIDs s))"

text \<open>Reading the command log: the names handed out, and the wrap-mode settings.\<close>

fun generated_name :: "gl_call \<Rightarrow> GLuint list" where
  "generated_name (glGenTextures n) = [n]"
| "generated_name _ = []"

definition generated_names :: "gl_call list \<Rightarrow> GLuint list" where
  "generated_names g = concat (map generated_name g)"

fun is_wrap_call :: "gl_call \<Rightarrow> bool" where
  "is_wrap_call (glTexParameteri p v) = (p = GL_TEXTURE_WRAP_S \<or> p = GL_TEXTURE_WRAP_T)"
| "is_wrap_call _ = False"

fun is_upload :: "gl_call \<Rightarrow> bool" where
  "is_upload (glTexImage2D f w h d) = True"
| "is_upload _ = False"

section \<open>Concrete collaborators and states, for evaluation\<close>

text \<open>
  A decoder that knows the files under the scene's texture directory (each a 1x1 RGB
  image) and no others, and a driver that numbers its textures 1, 2, 3, ...
\<close>

definition example_image :: stb_image where
  "example_image = \<lparr>image_data = [255, 128, 0], width = 1, height = 1, colorChannels = 3\<rparr>"

definition example_collaborators :: collaborators where
  "example_collaborators =
     \<lparr>stbi_load = (\<lambda>filename. if take 27 filename = ''../5-2_Assignment/textures/''
                               then Some example_image else None),
      gl_new_name = (\<lambda>g. 1 + of_nat (length (generated_names g)))\<rparr>"

text \<open>
  GLM's matrices computed over the reals, column by column as GLM stores them:
  \<open>rotate\<close> normalises the axis and builds the axis-angle matrix, \<open>radians\<close>
  multiplies by \<open>pi / 180\<close>.
\<close>

definition vec4_axpy :: "float \<Rightarrow> vec4 \<Rightarrow> vec4 \<Rightarrow> vec4" where
  "vec4_axpy k u v =
     (case u of (ux, uy, uz, uw) \<Rightarrow> case v of (vx, vy, vz, vw) \<Rightarrow>
        (k * ux + vx, k * uy + vy, k * uz + vz, k * uw + vw))"

definition mat4_apply :: "mat4 \<Rightarrow> vec4 \<Rightarrow> vec4" where
  "mat4_apply m v =
     (case m of (c0, c1, c2, c3) \<Rightarrow> case v of (x, y, z, w) \<Rightarrow>
        vec4_axpy x c0 (vec4_axpy y c1 (vec4_axpy z c2 (vec4_axpy w c3 (0, 0, 0, 0)))))"

definition mat4_mul :: "mat4 \<Rightarrow> mat4 \<Rightarrow> mat4" where
  "mat4_mul a b =
     (case b of (b0, b1, b2, b3) \<Rightarrow>
        (mat4_apply a b0, mat4_apply a b1, mat4_apply a b2, mat4_apply a b3))"

definition exact_rotate :: "float \<Rightarrow> vec3 \<Rightarrow> mat4" where
  "exact_rotate angle v =
     (case v of (vx, vy, vz) \<Rightarrow>
        let c = cos angle; s = sin angle;
            l = sqrt (vx * vx + vy * vy + vz * vz);
            ax = vx / l; ay = vy / l; az = vz / l;
            tx = (1 - c) * ax; ty = (1 - c) * ay; tz = (1 - c) * az
        in ((c + tx * ax, tx * ay + s * az, tx * az - s * ay, 0),
            (ty * ax - s * az, c + ty * ay, ty * az + s * ax, 0),
            (tz * ax + s * ay, tz * ay - s * ax, c + tz * az, 0),
            (0, 0, 0, 1)))"

definition exact_glm :: glm where
  "exact_glm =
     \<lparr>glm_radians = (\<lambda>degrees. degrees * pi / 180),
      glm_scale = (\<lambda>(x, y, z). ((x, 0, 0, 0), (0, y, 0, 0), (0, 0, z, 0), (0, 0, 0, 1))),
      glm_rotate = exact_rotate,
      glm_translate = (\<lambda>(x, y, z). ((1, 0, 0, 0), (0, 1, 0, 0), (0, 0, 1, 0), (x, y, z, 1))),
      glm_mul = mat4_mul\<rparr>"

text \<open>
  A freshly constructed scene manager with a shader manager that has received nothing,
  the same with a null shader manager, and the state \<open>PrepareScene\<close> reaches after
  \<open>LoadSceneTextures\<close> and \<open>DefineObjectMaterials\<close>: all sixteen slots taken.
\<close>

definition new_scene :: SceneManager where
  "new_scene = SceneManager_ctor (Some \<lparr>uniform_writes = []\<rparr>) [] []"

definition null_scene :: SceneManager where
  "null_scene = SceneManager_ctor None [] []"

definition prepared_scene :: SceneManager where
  "prepared_scene =
     (case LoadSceneTextures example_collaborators new_scene of
        Returns u s \<Rightarrow> DefineObjectMaterials s
      | Undefined s \<Rightarrow> s)"

section \<open>Sequences of draw-state calls\<close>

text \<open>
  \<open>RenderScene\<close> prepares every draw with a run of calls to the five state-setting
  methods, in any order and number. A call is recorded with its arguments; for
  \<open>SetShaderMaterial\<close> the first argument is what its uninitialised local holds.
\<close>

datatype draw_call =
  Call_SetTransformations vec3 float float float vec3
| Call_SetShaderColor float float float float
| Call_SetShaderTexture string
| Call_SetShaderMaterial OBJECT_MATERIAL string
| Call_SetTextureUVScale float float

fun apply_draw_call :: "glm \<Rightarrow> draw_call \<Rightarrow> SceneManager \<Rightarrow> unit outcome" where
  "apply_draw_call g (Call_SetTransformations scaleXYZ x y z positionXYZ) s =
     Returns () (SetTransformations g scaleXYZ x y z positionXYZ s)"
| "apply_draw_call g (Call_SetShaderColor r gr b a) s = Returns () (SetShaderColor r gr b a s)"
| "apply_draw_call g (Call_SetShaderTexture tg) s = Returns () (SetShaderTexture tg s)"
| "apply_draw_call g (Call_SetShaderMaterial material0 tg) s = SetShaderMaterial material0 tg s"
| "apply_draw_call g (Call_SetTextureUVScale u v) s = Returns () (SetTextureUVScale u v s)"

fun run_draw_calls :: "glm \<Rightarrow> draw_call list \<Rightarrow> SceneManager \<Rightarrow> unit outcome" where
  "run_draw_calls g [] s = Returns () s"
| "run_draw_calls g (c # cs) s =
     (case apply_draw_call g c s of
        Undefined s' \<Rightarrow> Undefined s'
      | Returns u s' \<Rightarrow> run_draw_calls g cs s')"

text \<open>
  Last write wins, spelled out: the value of \<open>bUseTexture\<close> that a run of calls should
  leave, given the value before it. Only \<open>SetShaderColor\<close> (0) and \<open>SetShaderTexture\<close>
  (1) count as writes; \<open>writes_use_texture\<close> tells them from the other calls.
\<close>

fun use_texture_after :: "uniform_value option \<Rightarrow> draw_call list \<Rightarrow> uniform_value option" where
  "use_texture_after v [] = v"
| "use_texture_after v (Call_SetShaderColor r gr b a # cs) = use_texture_after (Some (IntValue 0)) cs"
| "use_texture_after v (Call_SetShaderTexture tg # cs) = use_texture_after (Some (IntValue 1)) cs"
| "use_texture_after v (c # cs) = use_texture_after v cs"

fun writes_use_texture :: "draw_call \<Rightarrow> bool" where
  "writes_use_texture (Call_SetShaderColor r gr b a) = True"
| "writes_use_texture (Call_SetShaderTexture tg) = True"
| "writes_use_texture c = False"

section \<open>The lookup loops\<close>

lemma FindTextureSlot_while_done:
  "FindTextureSlot_while s tg (t, i, True) = (t, i, True)"
  by (simp add: FindTextureSlot_while.simps)

lemma FindTextureID_while_done:
  "FindTextureID_while s tg (t, i, True) = (t, i, True)"
  by (simp add: FindTextureID_while.simps)

lemma FindTextureSlot_while_hit:
  assumes "0 \<le> index" "index \<le> k" "k < m_loadedTextures s"
    and "TEXTURE_INFO.tag (m_textureIDs s ! nat k) = tg"
    and "\<forall>j. index \<le> j \<and> j < k \<longrightarrow> TEXTURE_INFO.tag (m_textureIDs s ! nat j) \<noteq> tg"
  shows "FindTextureSlot_while s tg (t, index, False) = (k, k, True)"
  using assms
proof (induction "nat (k - index)" arbitrary: index t)
  case 0
  then have "index = k" by simp
  with 0 show ?case by (simp add: FindTextureSlot_while.simps)
next
  case (Suc n)
  then have lt: "index < k" by linarith
  with Suc.prems have ne: "TEXTURE_INFO.tag (m_textureIDs s ! nat index) \<noteq> tg" by simp
  have "FindTextureSlot_while s tg (t, index + 1, False) = (k, k, True)"
    using Suc.hyps(2) Suc.prems lt by (intro Suc.hyps(1)) auto
  with lt ne Suc.prems show ?case by (subst FindTextureSlot_while.simps) simp
qed

lemma FindTextureSlot_while_miss:
  assumes "0 \<le> index"
    and "\<forall>j. index \<le> j \<and> j < m_loadedTextures s \<longrightarrow> TEXTURE_INFO.tag (m_textureIDs s ! nat j) \<noteq> tg"
  shows "fst (FindTextureSlot_while s tg (t, index, False)) = t"
  using assms
proof (induction "nat (m_loadedTextures s - index)" arbitrary: index)
  case 0
  then show ?case by (simp add: FindTextureSlot_while.simps)
next
  case (Suc n)
  then have lt: "index < m_loadedTextures s" by linarith
  with Suc.prems have ne: "TEXTURE_INFO.tag (m_textureIDs s ! nat index) \<noteq> tg" by simp
  have "fst (FindTextureSlot_while s tg (t, index + 1, False)) = t"
    using Suc.hyps(2) Suc.prems lt by (intro Suc.hyps(1)) auto
  with lt ne show ?case by (subst FindTextureSlot_while.simps) simp
qed

lemma FindTextureID_while_hit:
  assumes "0 \<le> index" "index \<le> k" "k < m_loadedTextures s"
    and "TEXTURE_INFO.tag (m_textureIDs s ! nat k) = tg"
    and "\<forall>j. index \<le> j \<and> j < k \<longrightarrow> TEXTURE_INFO.tag (m_textureIDs s ! nat j) \<noteq> tg"
  shows "FindTextureID_while s tg (t, index, False) = (sint (ID (m_textureIDs s ! nat k)), k, True)"
  using assms
proof (induction "nat (k - index)" arbitrary: index t)
  case 0
  then have "index = k" by simp
  with 0 show ?case by (simp add: FindTextureID_while.simps)
next
  case (Suc n)
  then have lt: "index < k" by linarith
  with Suc.prems have ne: "TEXTURE_INFO.tag (m_textureIDs s ! nat index) \<noteq> tg" by simp
  have "FindTextureID_while s tg (t, index + 1, False) = (sint (ID (m_textureIDs s ! nat k)), k, True)"
    using Suc.hyps(2) Suc.prems lt by (intro Suc.hyps(1)) auto
  with lt ne Suc.prems show ?case by (subst FindTextureID_while.simps) simp
qed

lemma FindTextureID_while_miss:
  assumes "0 \<le> index"
    and "\<forall>j. index \<le> j \<and> j < m_loadedTextures s \<longrightarrow> TEXTURE_INFO.tag (m_textureIDs s ! nat j) \<noteq> tg"
  shows "fst (FindTextureID_while s tg (t, index, False)) = t"
  using assms
proof (induction "nat (m_loadedTextures s - index)" arbitrary: index)
  case 0
  then show ?case by (simp add: FindTextureID_while.simps)
next
  case (Suc n)
  then have lt: "index < m_loadedTextures s" by linarith
  with Suc.prems have ne: "TEXTURE_INFO.tag (m_textureIDs s ! nat index) \<noteq> tg" by simp
  have "fst (FindTextureID_while s tg (t, index + 1, False)) = t"
    using Suc.hyps(2) Suc.prems lt by (intro Suc.hyps(1)) auto
  with lt ne show ?case by (subst FindTextureID_while.simps) simp
qed

section \<open>What the table operations do to the registered slots\<close>

lemma length_registered_tags:
  "table_ok s \<Longrightarrow> length (registered_tags s) = nat (m_loadedTextures s)"
  by (auto simp: registered_tags_def table_ok_def)

lemma registered_tags_nth:
  assumes "table_ok s" and "0 \<le> j" and "j < m_loadedTextures s"
  shows "registered_tags s ! nat j = TEXTURE_INFO.tag (m_textureIDs s ! nat j)"
proof -
  from assms have "nat j < nat (m_loadedTextures s)" "nat j < length (m_textureIDs s)"
    by (auto simp: table_ok_def)
  then show ?thesis by (simp add: registered_tags_def)
qed

lemma Find_registered:
  assumes ok: "table_ok s" and i: "i < length (registered_tags s)"
    and hit: "registered_tags s ! i = tg"
    and first: "\<forall>j<i. registered_tags s ! j \<noteq> tg"
  shows "FindTextureSlot s tg = int i"
    and "FindTextureID s tg = sint (ID (m_textureIDs s ! i))"
proof -
  from ok i have lt: "int i < m_loadedTextures s"
    by (simp add: length_registered_tags)
  have at: "TEXTURE_INFO.tag (m_textureIDs s ! nat (int i)) = tg"
    using registered_tags_nth [OF ok _ lt] hit by simp
  have before: "\<forall>j. 0 \<le> j \<and> j < int i \<longrightarrow> TEXTURE_INFO.tag (m_textureIDs s ! nat j) \<noteq> tg"
  proof (intro allI impI)
    fix j assume j: "0 \<le> j \<and> j < int i"
    then have "nat j < i" by linarith
    with first have "registered_tags s ! nat j \<noteq> tg" by blast
    moreover have "registered_tags s ! nat j = TEXTURE_INFO.tag (m_textureIDs s ! nat j)"
      using registered_tags_nth [OF ok, of j] j lt by simp
    ultimately show "TEXTURE_INFO.tag (m_textureIDs s ! nat j) \<noteq> tg" by simp
  qed
  show "FindTextureSlot s tg = int i"
    using FindTextureSlot_while_hit [OF _ _ lt at before, of "- 1"]
    by (simp add: FindTextureSlot_def)
  show "FindTextureID s tg = sint (ID (m_textureIDs s ! i))"
    using FindTextureID_while_hit [OF _ _ lt at before, of "- 1"]
    by (simp add: FindTextureID_def)
qed

lemma Find_unregistered:
  assumes ok: "table_ok s" and miss: "tg \<notin> set (registered_tags s)"
  shows "FindTextureSlot s tg = - 1" and "FindTextureID s tg = - 1"
proof -
  have none: "\<forall>j. 0 \<le> j \<and> j < m_loadedTextures s \<longrightarrow>
                TEXTURE_INFO.tag (m_textureIDs s ! nat j) \<noteq> tg"
  proof (intro allI impI)
    fix j assume j: "0 \<le> j \<and> j < m_loadedTextures s"
    then have "nat j < length (registered_tags s)"
      using ok by (simp add: length_registered_tags)
    then have "registered_tags s ! nat j \<in> set (registered_tags s)" by simp
    with miss have "registered_tags s ! nat j \<noteq> tg" by metis
    then show "TEXTURE_INFO.tag (m_textureIDs s ! nat j) \<noteq> tg"
      using registered_tags_nth [OF ok, of j] j by simp
  qed
  show "FindTextureSlot s tg = - 1"
    using FindTextureSlot_while_miss [OF _ none, of "- 1"] by (simp add: FindTextureSlot_def)
  show "FindTextureID s tg = - 1"
    using FindTextureID_while_miss [OF _ none, of "- 1"] by (simp add: FindTextureID_def)
qed

lemma Find_first_registered:
  assumes ok: "table_ok s" and mem: "tg \<in> set (registered_tags s)"
  shows "0 \<le> FindTextureSlot s tg \<and> FindTextureSlot s tg < m_loadedTextures s \<and>
         registered_tags s ! nat (FindTextureSlot s tg) = tg"
proof -
  from split_list_first [OF mem]
  obtain ys zs where d: "registered_tags s = ys @ tg # zs" "tg \<notin> set ys"
    by blast
  let ?i = "length ys"
  have i: "?i < length (registered_tags s)" using d by simp
  have hit: "registered_tags s ! ?i = tg" using d by simp
  have first: "\<forall>j<?i. registered_tags s ! j \<noteq> tg"
    using d by (auto simp: nth_append)
  have "FindTextureSlot s tg = int ?i" by (rule Find_registered(1) [OF ok i hit first])
  then show ?thesis using i hit ok by (simp add: length_registered_tags)
qed

lemma CreateGLTexture_registers:
  assumes ok: "table_ok s" and room: "m_loadedTextures s < 16"
    and dec: "stbi_load co filename = Some img"
  shows "\<exists>s'. CreateGLTexture co filename tg s = Returns True s' \<and> table_ok s' \<and>
           m_loadedTextures s' = m_loadedTextures s + 1 \<and>
           registered_tags s' = registered_tags s @ [tg] \<and>
           registered_IDs s' = registered_IDs s @ [gl_new_name co (gl s)] \<and>
           m_objectMaterials s' = m_objectMaterials s \<and>
           m_pShaderManager s' = m_pShaderManager s"
proof -
  let ?n = "nat (m_loadedTextures s)"
  from ok room have n: "?n < length (m_textureIDs s)" and nn: "0 \<le> m_loadedTextures s"
    by (simp_all add: table_ok_def)
  have suc: "nat (m_loadedTextures s + 1) = Suc ?n" using nn by simp
  show ?thesis
    using ok room dec n nn
    by (simp add: CreateGLTexture_def Let_def table_ok_def registered_tags_def
        registered_IDs_def suc take_Suc_conv_app_nth)
qed

lemma CreateGLTexture_overflows:
  assumes "m_loadedTextures s = int (length (m_textureIDs s))"
    and "stbi_load co filename = Some img"
  shows "\<exists>s'. CreateGLTexture co filename tg s = Undefined s' \<and>
           filter is_upload (drop (length (gl s)) (gl s')) \<noteq> []"
  using assms by (simp add: CreateGLTexture_def Let_def)

lemma CreateGLTextures_registers:
  assumes "table_ok s" and "m_loadedTextures s + int (length calls) \<le> 16"
    and "list_all (\<lambda>c. stbi_load co (fst c) \<noteq> None) calls"
  shows "\<exists>s' g. CreateGLTextures co calls s = Returns (replicate (length calls) True) s' \<and>
           table_ok s' \<and> m_loadedTextures s' = m_loadedTextures s + int (length calls) \<and>
           registered_tags s' = registered_tags s @ map snd calls \<and>
           gl s' = gl s @ g \<and> registered_IDs s' = registered_IDs s @ generated_names g \<and>
           m_objectMaterials s' = m_objectMaterials s \<and>
           m_pShaderManager s' = m_pShaderManager s"
  using assms
proof (induction calls arbitrary: s)
  case Nil
  then show ?case by (simp add: generated_names_def)
next
  case (Cons c calls)
  obtain filename tg where c: "c = (filename, tg)" by (cases c)
  from Cons.prems c obtain img where dec: "stbi_load co filename = Some img" by auto
  from Cons.prems have room: "m_loadedTextures s < 16" by simp
  from CreateGLTexture_registers [OF Cons.prems(1) room dec, of tg]
  obtain s1 where s1: "CreateGLTexture co filename tg s = Returns True s1" "table_ok s1"
      "m_loadedTextures s1 = m_loadedTextures s + 1"
      "registered_tags s1 = registered_tags s @ [tg]"
      "registered_IDs s1 = registered_IDs s @ [gl_new_name co (gl s)]"
      "m_objectMaterials s1 = m_objectMaterials s"
      "m_pShaderManager s1 = m_pShaderManager s"
    by blast
  have gl1: "\<exists>g1. gl s1 = gl s @ g1 \<and> generated_names g1 = [gl_new_name co (gl s)]"
    using s1(1) dec
    by (auto simp: CreateGLTexture_def Let_def generated_names_def split: if_splits)
  then obtain g1 where g1: "gl s1 = gl s @ g1" "generated_names g1 = [gl_new_name co (gl s)]"
    by blast
  have "m_loadedTextures s1 + int (length calls) \<le> 16"
    using Cons.prems(2) s1(3) by simp
  moreover have "list_all (\<lambda>c. stbi_load co (fst c) \<noteq> None) calls"
    using Cons.prems(3) by simp
  ultimately obtain s' g where s':
      "CreateGLTextures co calls s1 = Returns (replicate (length calls) True) s'"
      "table_ok s'" "m_loadedTextures s' = m_loadedTextures s1 + int (length calls)"
      "registered_tags s' = registered_tags s1 @ map snd calls"
      "gl s' = gl s1 @ g" "registered_IDs s' = registered_IDs s1 @ generated_names g"
      "m_objectMaterials s' = m_objectMaterials s1"
      "m_pShaderManager s' = m_pShaderManager s1"
    using Cons.IH [OF s1(2)] by blast
  have "generated_names (g1 @ g) = gl_new_name co (gl s) # generated_names g"
    using g1(2) by (simp add: generated_names_def)
  then show ?case
    using c s1 s' g1 by (intro exI [of _ s'] exI [of _ "g1 @ g"]) simp
qed

lemma registered_tags_empty: "m_loadedTextures s = 0 \<Longrightarrow> registered_tags s = []"
  by (simp add: registered_tags_def)

lemma registered_IDs_empty: "m_loadedTextures s = 0 \<Longrightarrow> registered_IDs s = []"
  by (simp add: registered_IDs_def)

lemma table_ok_ctor: "table_ok (SceneManager_ctor p g out)"
  by (simp add: table_ok_def SceneManager_ctor_def)

lemma BindGLTextures_for_keeps:
  "m_textureIDs (BindGLTextures_for i s) = m_textureIDs s \<and>
   m_loadedTextures (BindGLTextures_for i s) = m_loadedTextures s \<and>
   m_objectMaterials (BindGLTextures_for i s) = m_objectMaterials s \<and>
   m_pShaderManager (BindGLTextures_for i s) = m_pShaderManager s"
proof (induction i s rule: BindGLTextures_for.induct)
  case (1 i s)
  show ?case
  proof (cases "i < m_loadedTextures s")
    case True
    then have "BindGLTextures_for i s = BindGLTextures_for (i + 1)
      (s\<lparr>gl := gl s @ [glActiveTexture i, glBindTexture (ID (m_textureIDs s ! nat i))]\<rparr>)"
      by (subst BindGLTextures_for.simps) simp
    with 1 [OF True] show ?thesis by simp
  next
    case False
    then have "BindGLTextures_for i s = s" by (subst BindGLTextures_for.simps) simp
    then show ?thesis by simp
  qed
qed

lemma DestroyGLTextures_for_keeps:
  "length (m_textureIDs (DestroyGLTextures_for i s)) = length (m_textureIDs s) \<and>
   m_loadedTextures (DestroyGLTextures_for i s) = m_loadedTextures s"
proof (induction i s rule: DestroyGLTextures_for.induct)
  case (1 i s)
  show ?case
  proof (cases "i < m_loadedTextures s")
    case True
    let ?s1 = "if ID (m_textureIDs s ! nat i) \<noteq> 0
              then s\<lparr>gl := gl s @ [glDeleteTextures (ID (m_textureIDs s ! nat i))],
                     m_textureIDs := (m_textureIDs s)[nat i := (m_textureIDs s ! nat i)\<lparr>ID := 0\<rparr>]\<rparr>
              else s"
    from True have "DestroyGLTextures_for i s = DestroyGLTextures_for (i + 1) ?s1"
      by (subst DestroyGLTextures_for.simps) simp
    with 1 [OF True] show ?thesis by simp
  next
    case False
    then have "DestroyGLTextures_for i s = s" by (subst DestroyGLTextures_for.simps) simp
    then show ?thesis by simp
  qed
qed

lemma DestroyGLTextures_for_empty:
  "m_loadedTextures s = 0 \<Longrightarrow> DestroyGLTextures_for 0 s = s"
  by (subst DestroyGLTextures_for.simps) simp

lemma Find_empty:
  "m_loadedTextures s = 0 \<Longrightarrow> FindTextureSlot s tg = - 1 \<and> FindTextureID s tg = - 1"
  by (simp add: FindTextureSlot_def FindTextureID_def
      FindTextureSlot_while.simps FindTextureID_while.simps)

section \<open>Lookups depend on the table only; the material scan\<close>

lemma FindTextureSlot_while_cong:
  assumes "m_textureIDs s' = m_textureIDs s" and "m_loadedTextures s' = m_loadedTextures s"
  shows "FindTextureSlot_while s' tg (t, index, b) = FindTextureSlot_while s tg (t, index, b)"
proof (induction "nat (m_loadedTextures s - index)" arbitrary: index t b)
  case 0
  then have "\<not> index < m_loadedTextures s" by simp
  then show ?case using assms by (simp add: FindTextureSlot_while.simps)
next
  case (Suc n)
  then have IH: "FindTextureSlot_while s' tg (t, index + 1, b') =
             FindTextureSlot_while s tg (t, index + 1, b')" for b'
    by (intro Suc.hyps(1)) simp
  have found: "FindTextureSlot_while s' tg (index, index, True) =
               FindTextureSlot_while s tg (index, index, True)"
    by (simp add: FindTextureSlot_while_done)
  show ?case
    by (subst FindTextureSlot_while.simps, subst (3) FindTextureSlot_while.simps)
       (simp add: assms IH found)
qed

lemma FindTextureID_while_cong:
  assumes "m_textureIDs s' = m_textureIDs s" and "m_loadedTextures s' = m_loadedTextures s"
  shows "FindTextureID_while s' tg (t, index, b) = FindTextureID_while s tg (t, index, b)"
proof (induction "nat (m_loadedTextures s - index)" arbitrary: index t b)
  case 0
  then have "\<not> index < m_loadedTextures s" by simp
  then show ?case using assms by (simp add: FindTextureID_while.simps)
next
  case (Suc n)
  then have IH: "FindTextureID_while s' tg (t, index + 1, b') =
             FindTextureID_while s tg (t, index + 1, b')" for b'
    by (intro Suc.hyps(1)) simp
  have found: "FindTextureID_while s' tg (x, index, True) =
               FindTextureID_while s tg (x, index, True)" for x
    by (simp add: FindTextureID_while_done)
  show ?case
    by (subst FindTextureID_while.simps, subst (3) FindTextureID_while.simps)
       (simp add: assms IH found)
qed


lemma FindMaterial_while_done:
  "FindMaterial_while s tg (m, i, True) = (m, i, True)"
  by (simp add: FindMaterial_while.simps)

lemma FindMaterial_while_miss:
  assumes "0 \<le> index"
    and "\<forall>j. index \<le> j \<and> j < int (length (m_objectMaterials s)) \<longrightarrow>
            OBJECT_MATERIAL.tag (m_objectMaterials s ! nat j) \<noteq> tg"
  shows "FindMaterial_while s tg (m, index, False) =
           (m, max index (int (length (m_objectMaterials s))), False)"
  using assms
proof (induction "nat (int (length (m_objectMaterials s)) - index)" arbitrary: index)
  case 0
  then show ?case by (simp add: FindMaterial_while.simps)
next
  case (Suc n)
  then have lt: "index < int (length (m_objectMaterials s))" by linarith
  with Suc.prems have ne: "OBJECT_MATERIAL.tag (m_objectMaterials s ! nat index) \<noteq> tg" by simp
  have "FindMaterial_while s tg (m, index + 1, False) =
          (m, max (index + 1) (int (length (m_objectMaterials s))), False)"
    using Suc.hyps(2) Suc.prems lt by (intro Suc.hyps(1)) auto
  with lt ne show ?case by (subst FindMaterial_while.simps) simp
qed

lemma FindMaterial_reports_found:
  "m_objectMaterials s \<noteq> [] \<Longrightarrow> fst (FindMaterial s tg m) = True"
  by (simp add: FindMaterial_def)

lemma FindMaterial_miss:
  assumes "m_objectMaterials s \<noteq> []"
    and "tg \<notin> set (map OBJECT_MATERIAL.tag (m_objectMaterials s))"
  shows "FindMaterial s tg m = (True, m)"
proof -
  have "\<forall>j. 0 \<le> j \<and> j < int (length (m_objectMaterials s)) \<longrightarrow>
            OBJECT_MATERIAL.tag (m_objectMaterials s ! nat j) \<noteq> tg"
  proof (intro allI impI)
    fix j assume j: "0 \<le> j \<and> j < int (length (m_objectMaterials s))"
    then have "nat j < length (m_objectMaterials s)" by linarith
    then have "OBJECT_MATERIAL.tag (m_objectMaterials s ! nat j)
                 \<in> set (map OBJECT_MATERIAL.tag (m_objectMaterials s))"
      by simp
    with assms(2) show "OBJECT_MATERIAL.tag (m_objectMaterials s ! nat j) \<noteq> tg" by metis
  qed
  from FindMaterial_while_miss [OF _ this, of m]
  show ?thesis using assms(1) by (simp add: FindMaterial_def)
qed

section \<open>The example states\<close>

lemma new_scene_facts:
  "table_ok new_scene \<and> m_loadedTextures new_scene = 0 \<and>
   m_pShaderManager new_scene = Some \<lparr>uniform_writes = []\<rparr> \<and> gl new_scene = []"
  by (simp add: new_scene_def table_ok_ctor) (simp add: SceneManager_ctor_def)

lemma scene_textures_decode:
  "list_all (\<lambda>c. stbi_load example_collaborators (fst c) \<noteq> None) scene_textures"
  by (simp add: scene_textures_def example_collaborators_def)

lemma prepared_scene_facts:
  "table_ok prepared_scene \<and> m_loadedTextures prepared_scene = 16 \<and>
   registered_tags prepared_scene = map snd scene_textures \<and>
   m_pShaderManager prepared_scene = Some \<lparr>uniform_writes = []\<rparr> \<and>
   m_objectMaterials prepared_scene = m_objectMaterials (DefineObjectMaterials new_scene)"
proof -
  have ok0: "table_ok new_scene" and z: "m_loadedTextures new_scene = 0"
    using new_scene_facts by simp_all
  have "m_loadedTextures new_scene + int (length scene_textures) \<le> 16"
    by (simp add: z scene_textures_def)
  from CreateGLTextures_registers [OF ok0 this scene_textures_decode]
  obtain s' where s':
      "CreateGLTextures example_collaborators scene_textures new_scene =
         Returns (replicate (length scene_textures) True) s'"
      "table_ok s'" "m_loadedTextures s' = m_loadedTextures new_scene + int (length scene_textures)"
      "registered_tags s' = registered_tags new_scene @ map snd scene_textures"
      "m_objectMaterials s' = m_objectMaterials new_scene"
      "m_pShaderManager s' = m_pShaderManager new_scene"
    by blast
  have p: "prepared_scene = DefineObjectMaterials (BindGLTextures s')"
    by (simp add: prepared_scene_def LoadSceneTextures_def s'(1))
  note k = BindGLTextures_for_keeps [of 0 s']
  have ids: "m_textureIDs prepared_scene = m_textureIDs s'"
    and n: "m_loadedTextures prepared_scene = m_loadedTextures s'"
    and sh: "m_pShaderManager prepared_scene = m_pShaderManager s'"
    and mats: "m_objectMaterials prepared_scene = m_objectMaterials (DefineObjectMaterials new_scene)"
    using k s'(5) by (simp_all add: p DefineObjectMaterials_def BindGLTextures_def)
  have "table_ok prepared_scene" using s'(2) ids n by (simp add: table_ok_def)
  moreover have "m_loadedTextures prepared_scene = 16"
    using n s'(3) z by (simp add: scene_textures_def)
  moreover have "registered_tags prepared_scene = map snd scene_textures"
    using s'(4) ids n z by (simp add: registered_tags_def)
  moreover have "m_pShaderManager prepared_scene = Some \<lparr>uniform_writes = []\<rparr>"
    using sh s'(6) new_scene_facts by simp
  ultimately show ?thesis using mats by simp
qed

section \<open>Evaluating the examples\<close>

lemma FindTextureSlot_cong:
  assumes "m_textureIDs s' = m_textureIDs s" and "m_loadedTextures s' = m_loadedTextures s"
  shows "FindTextureSlot s' tg = FindTextureSlot s tg"
  by (simp only: FindTextureSlot_def FindTextureSlot_while_cong [OF assms])

lemma prepared_scene_wood2: "FindTextureSlot prepared_scene ''wood2'' = 4"
proof -
  have ok: "table_ok prepared_scene"
    and tags: "registered_tags prepared_scene = map snd scene_textures"
    using prepared_scene_facts by simp_all
  have i: "4 < length (registered_tags prepared_scene)"
    by (simp add: tags scene_textures_def)
  have hit: "registered_tags prepared_scene ! 4 = ''wood2''"
    by (simp add: tags scene_textures_def)
  have first: "\<forall>j<4. registered_tags prepared_scene ! j \<noteq> ''wood2''"
  proof (intro allI impI)
    fix j :: nat assume "j < 4"
    then have "j = 0 \<or> j = 1 \<or> j = 2 \<or> j = 3" by linarith
    then show "registered_tags prepared_scene ! j \<noteq> ''wood2''"
      by (auto simp: tags scene_textures_def)
  qed
  from Find_registered(1) [OF ok i hit first] show ?thesis by simp
qed

lemma exact_rotate_Y_90: "exact_rotate (pi / 2) (0, 1, 0) =
   ((0, 0, - 1, 0), (0, 1, 0, 0), (1, 0, 0, 0), (0, 0, 0, 1))"
  by (simp add: exact_rotate_def Let_def)

lemma exact_rotate_X_0: "exact_rotate 0 (1, 0, 0) =
   ((1, 0, 0, 0), (0, 1, 0, 0), (0, 0, 1, 0), (0, 0, 0, 1))"
  by (simp add: exact_rotate_def Let_def)

lemma exact_rotate_Z_0: "exact_rotate 0 (0, 0, 1) =
   ((1, 0, 0, 0), (0, 1, 0, 0), (0, 0, 1, 0), (0, 0, 0, 1))"
  by (simp add: exact_rotate_def Let_def)

lemma exact_example_matrix:
  "glm_mul exact_glm
     (glm_mul exact_glm
       (glm_mul exact_glm
         (glm_mul exact_glm (glm_translate exact_glm (5, 0, 0))
            (glm_rotate exact_glm (glm_radians exact_glm 0) (0, 0, 1)))
         (glm_rotate exact_glm (glm_radians exact_glm 90) (0, 1, 0)))
       (glm_rotate exact_glm (glm_radians exact_glm 0) (1, 0, 0)))
     (glm_scale exact_glm (2, 1, 1)) =
   ((0, 0, - 2, 0), (0, 1, 0, 0), (1, 0, 0, 0), (5, 0, 0, 1))"
  by (simp add: exact_glm_def exact_rotate_Y_90 exact_rotate_X_0 exact_rotate_Z_0
      mat4_mul_def mat4_apply_def vec4_axpy_def)

section \<open>Runs of draw-state calls\<close>

lemma uniform_set_uniform:
  "uniform (set_uniform n v sh) k = (if k = n then Some v else uniform sh k)"
  by (simp add: uniform_def set_uniform_def)

lemma use_texture_after_append:
  "use_texture_after v (xs @ ys) = use_texture_after (use_texture_after v xs) ys"
  by (induction v xs rule: use_texture_after.induct) simp_all

lemma use_texture_after_quiet:
  "list_all (\<lambda>c. \<not> writes_use_texture c) cs \<Longrightarrow> use_texture_after v cs = v"
  by (induction v cs rule: use_texture_after.induct) simp_all

lemma SetShaderColor_writes:
  assumes "m_pShaderManager s = Some sh"
  shows "SetShaderColor r gr b a s =
           s\<lparr>m_pShaderManager := Some (sh\<lparr>uniform_writes := uniform_writes sh @
              [(''bUseTexture'', IntValue 0), (''objectColor'', Vec4Value (r, gr, b, a))]\<rparr>)\<rparr>"
  using assms
  by (simp add: SetShaderColor_def setVec4Value_def setIntValue_def set_uniform_def
      g_UseTextureName_def g_ColorValueName_def)

lemma SetShaderTexture_writes:
  assumes "m_pShaderManager s = Some sh"
  shows "SetShaderTexture tg s =
           s\<lparr>m_pShaderManager := Some (sh\<lparr>uniform_writes := uniform_writes sh @
              [(''bUseTexture'', IntValue 1),
               (''objectTexture'', Sampler2DValue (FindTextureSlot s tg))]\<rparr>)\<rparr>"
  using assms
  by (simp add: SetShaderTexture_def Let_def setSampler2DValue_def setIntValue_def set_uniform_def
      g_UseTextureName_def g_TextureValueName_def)

lemma apply_draw_call_use_texture:
  assumes "m_pShaderManager s = Some sh"
  shows "\<exists>sh'. apply_draw_call g c s = Returns () (s\<lparr>m_pShaderManager := Some sh'\<rparr>) \<and>
           uniform sh' g_UseTextureName = use_texture_after (uniform sh g_UseTextureName) [c]"
proof (cases c)
  case (Call_SetTransformations scaleXYZ x y z positionXYZ)
  then show ?thesis
    using assms
    by (simp add: SetTransformations_def Let_def setMat4Value_def g_ModelName_def)
       (rule exI, rule conjI, rule refl, simp add: uniform_set_uniform g_UseTextureName_def)
next
  case (Call_SetShaderColor r gr b a)
  then show ?thesis
    using assms
    by (simp add: SetShaderColor_def setVec4Value_def setIntValue_def g_ColorValueName_def)
       (rule exI, rule conjI, rule refl, simp add: uniform_set_uniform g_UseTextureName_def)
next
  case (Call_SetShaderTexture tg)
  then show ?thesis
    using assms
    by (simp add: SetShaderTexture_def Let_def setSampler2DValue_def setIntValue_def
          g_TextureValueName_def)
       (rule exI, rule conjI, rule refl, simp add: uniform_set_uniform g_UseTextureName_def)
next
  case (Call_SetShaderMaterial material0 tg)
  have same: "s\<lparr>m_pShaderManager := Some sh\<rparr> = s" using assms by simp
  show ?thesis
  proof (cases "length (m_objectMaterials s) > 0 \<and> fst (FindMaterial s tg material0)")
    case True
    then show ?thesis
      using assms Call_SetShaderMaterial
      by (simp add: SetShaderMaterial_def split_beta setFloatValue_def setVec3Value_def)
         (rule exI, rule conjI, rule refl, simp add: uniform_set_uniform g_UseTextureName_def)
  next
    case False
    then have "SetShaderMaterial material0 tg s = Returns () s"
      by (auto simp: SetShaderMaterial_def split_beta)
    then show ?thesis
      using Call_SetShaderMaterial same by (intro exI [of _ sh]) simp
  qed
next
  case (Call_SetTextureUVScale u v)
  then show ?thesis
    using assms
    by (simp add: SetTextureUVScale_def setVec2Value_def)
       (rule exI, rule conjI, rule refl, simp add: uniform_set_uniform g_UseTextureName_def)
qed

lemma run_draw_calls_use_texture:
  assumes "m_pShaderManager s = Some sh"
  shows "\<exists>sh'. run_draw_calls g cs s = Returns () (s\<lparr>m_pShaderManager := Some sh'\<rparr>) \<and>
           uniform sh' g_UseTextureName = use_texture_after (uniform sh g_UseTextureName) cs"
  using assms
proof (induction cs arbitrary: s sh)
  case Nil
  then have "s\<lparr>m_pShaderManager := Some sh\<rparr> = s" by simp
  then show ?case by (intro exI [of _ sh]) simp
next
  case (Cons c cs)
  from apply_draw_call_use_texture [OF Cons.prems, of g c]
  obtain sh1 where sh1: "apply_draw_call g c s = Returns () (s\<lparr>m_pShaderManager := Some sh1\<rparr>)"
      "uniform sh1 g_UseTextureName = use_texture_after (uniform sh g_UseTextureName) [c]"
    by blast
  let ?s1 = "s\<lparr>m_pShaderManager := Some sh1\<rparr>"
  have "m_pShaderManager ?s1 = Some sh1" by simp
  from Cons.IH [OF this]
  obtain sh' where sh': "run_draw_calls g cs ?s1 = Returns () (?s1\<lparr>m_pShaderManager := Some sh'\<rparr>)"
      "uniform sh' g_UseTextureName = use_texture_after (uniform sh1 g_UseTextureName) cs"
    by blast
  have "use_texture_after (uniform sh g_UseTextureName) (c # cs) =
        use_texture_after (use_texture_after (uniform sh g_UseTextureName) [c]) cs"
    using use_texture_after_append [of _ "[c]" cs] by simp
  with sh1 sh' show ?case by (intro exI [of _ sh']) simp
qed

lemma run_draw_calls_append:
  "run_draw_calls g (xs @ ys) s =
     (case run_draw_calls g xs s of
        Undefined s' \<Rightarrow> Undefined s'
      | Returns u s' \<Rightarrow> run_draw_calls g ys s')"
  by (induction xs arbitrary: s) (simp_all split: outcome.splits)

lemma use_texture_after_last:
  assumes "list_all (\<lambda>c. \<not> writes_use_texture c) post"
  shows "use_texture_after v (pre @ Call_SetShaderColor r gr b a # post) = Some (IntValue 0)"
    and "use_texture_after v (pre @ Call_SetShaderTexture tg # post) = Some (IntValue 1)"
  using assms by (simp_all add: use_texture_after_append use_texture_after_quiet)

lemma run_then_SetShaderTexture:
  assumes "m_pShaderManager s = Some sh"
  shows "\<exists>sh'. run_draw_calls g (pre @ [Call_SetShaderTexture tg]) s =
                 Returns () (s\<lparr>m_pShaderManager := Some sh'\<rparr>) \<and>
               uniform sh' g_TextureValueName = Some (Sampler2DValue (FindTextureSlot s tg))"
proof -
  from run_draw_calls_use_texture [OF assms, of g pre]
  obtain sh0 where r: "run_draw_calls g pre s = Returns () (s\<lparr>m_pShaderManager := Some sh0\<rparr>)"
    by blast
  let ?s0 = "s\<lparr>m_pShaderManager := Some sh0\<rparr>"
  have slot: "FindTextureSlot ?s0 tg = FindTextureSlot s tg"
    by (rule FindTextureSlot_cong) simp_all
  let ?sh' = "sh0\<lparr>uniform_writes := uniform_writes sh0 @
              [(''bUseTexture'', IntValue 1),
               (''objectTexture'', Sampler2DValue (FindTextureSlot s tg))]\<rparr>"
  have "SetShaderTexture tg ?s0 = ?s0\<lparr>m_pShaderManager := Some ?sh'\<rparr>"
    using SetShaderTexture_writes [of ?s0 sh0 tg] slot by simp
  then have "run_draw_calls g (pre @ [Call_SetShaderTexture tg]) s =
               Returns () (s\<lparr>m_pShaderManager := Some ?sh'\<rparr>)"
    by (simp add: run_draw_calls_append r)
  moreover have "uniform ?sh' g_TextureValueName = Some (Sampler2DValue (FindTextureSlot s tg))"
    by (simp add: uniform_def g_TextureValueName_def)
  ultimately show ?thesis by blast
qed

section \<open>The claims\<close>

text \<open>
  C1. A \<open>CreateGLTexture\<close> call on a table that already holds sixteen textures should
  be refused before anything is uploaded, leaving the table as it was. The source has no
  such test. Evaluated on the scene as \<open>PrepareScene\<close> leaves it (sixteen slots taken)
  with a file that decodes: the texture is generated and uploaded, and the call then
  reaches the write to \<open>m_textureIDs[16]\<close>, one past the last element.
\<close>

theorem CreateGLTexture_past_capacity:
  "m_loadedTextures prepared_scene = 16 \<and>
   length (m_textureIDs prepared_scene) = 16 \<and>
   (\<exists>s'. CreateGLTexture example_collaborators ''../5-2_Assignment/textures/marble.jpg''
            ''marble'' prepared_scene = Undefined s' \<and>
          filter is_upload (drop (length (gl prepared_scene)) (gl s')) \<noteq> [])"
proof -
  have n: "m_loadedTextures prepared_scene = 16"
    and len: "length (m_textureIDs prepared_scene) = 16"
    using prepared_scene_facts by (simp_all add: table_ok_def)
  have full: "m_loadedTextures prepared_scene = int (length (m_textureIDs prepared_scene))"
    using n len by simp
  have dec: "stbi_load example_collaborators ''../5-2_Assignment/textures/marble.jpg''
               = Some example_image"
    by (simp add: example_collaborators_def)
  from CreateGLTexture_overflows [OF full dec, of "''marble''"] n len
  show ?thesis by simp
qed

text \<open>
  C2. \<open>FindMaterial\<close> should report "not found" exactly when the vector is empty or
  holds no material with the tag, and \<open>SetShaderMaterial\<close> should then push nothing.
  On the empty vector it does return \<open>false\<close> (also for the empty tag). With the eight
  materials of \<open>DefineObjectMaterials\<close> and the tag \<open>"glass"\<close>, which none of them
  has, it returns \<open>true\<close> and leaves \<open>material\<close> as it found it, and
  \<open>SetShaderMaterial\<close> pushes the three fields of its uninitialised local.
\<close>

theorem FindMaterial_miss_reports_found:
  "\<forall>m. FindMaterial new_scene [] m = (False, m) \<and>
       FindMaterial prepared_scene ''glass'' m = (True, m) \<and>
       SetShaderMaterial m ''glass'' prepared_scene =
         Returns ()
           (prepared_scene\<lparr>m_pShaderManager := Some
              \<lparr>uniform_writes =
                 [(''material.diffuseColor'', Vec3Value (diffuseColor m)),
                  (''material.specularColor'', Vec3Value (specularColor m)),
                  (''material.shininess'', FloatValue (shininess m))]\<rparr>\<rparr>)"
proof
  fix m
  have mats: "m_objectMaterials prepared_scene = m_objectMaterials (DefineObjectMaterials new_scene)"
    and sh: "m_pShaderManager prepared_scene = Some \<lparr>uniform_writes = []\<rparr>"
    using prepared_scene_facts by simp_all
  have e: "m_objectMaterials new_scene = []"
    by (simp add: new_scene_def SceneManager_ctor_def)
  have empty: "FindMaterial new_scene [] m = (False, m)"
    using e by (simp add: FindMaterial_def)
  have ne: "m_objectMaterials prepared_scene \<noteq> []"
    by (simp add: mats DefineObjectMaterials_def)
  have absent: "''glass'' \<notin> set (map OBJECT_MATERIAL.tag (m_objectMaterials prepared_scene))"
    by (simp add: mats DefineObjectMaterials_def e)
  have miss: "FindMaterial prepared_scene ''glass'' m = (True, m)"
    by (rule FindMaterial_miss [OF ne absent])
  have "SetShaderMaterial m ''glass'' prepared_scene =
         Returns ()
           (prepared_scene\<lparr>m_pShaderManager := Some
              \<lparr>uniform_writes =
                 [(''material.diffuseColor'', Vec3Value (diffuseColor m)),
                  (''material.specularColor'', Vec3Value (specularColor m)),
                  (''material.shininess'', FloatValue (shininess m))]\<rparr>\<rparr>)"
    using ne miss sh
    by (simp add: SetShaderMaterial_def setFloatValue_def setVec3Value_def set_uniform_def)
  with empty miss show "FindMaterial new_scene [] m = (False, m) \<and>
       FindMaterial prepared_scene ''glass'' m = (True, m) \<and>
       SetShaderMaterial m ''glass'' prepared_scene =
         Returns ()
           (prepared_scene\<lparr>m_pShaderManager := Some
              \<lparr>uniform_writes =
                 [(''material.diffuseColor'', Vec3Value (diffuseColor m)),
                  (''material.specularColor'', Vec3Value (specularColor m)),
                  (''material.shininess'', FloatValue (shininess m))]\<rparr>\<rparr>)"
    by simp
qed

text \<open>
  C3. With a shader manager present, \<open>SetTransformations\<close> writes exactly one uniform,
  \<open>"model"\<close>, and its value is the product translate * rotateZ * rotateY * rotateX *
  scale, multiplied from the left in that order, of the matrices GLM builds from the
  position, the three angles (converted to radians, about the Z, Y and X axes) and the
  scale.
\<close>

theorem SetTransformations_model_matrix:
  assumes "m_pShaderManager s = Some sh"
  shows "\<exists>sh'. SetTransformations g scaleXYZ x y z positionXYZ s = s\<lparr>m_pShaderManager := Some sh'\<rparr> \<and>
           uniform_writes sh' = uniform_writes sh @
             [(''model'', Mat4Value
                (glm_mul g
                  (glm_mul g
                    (glm_mul g
                      (glm_mul g (glm_translate g positionXYZ)
                         (glm_rotate g (glm_radians g z) (0, 0, 1)))
                      (glm_rotate g (glm_radians g y) (0, 1, 0)))
                    (glm_rotate g (glm_radians g x) (1, 0, 0)))
                  (glm_scale g scaleXYZ)))] \<and>
           uniform sh' ''model'' = Some (Mat4Value
                (glm_mul g
                  (glm_mul g
                    (glm_mul g
                      (glm_mul g (glm_translate g positionXYZ)
                         (glm_rotate g (glm_radians g z) (0, 0, 1)))
                      (glm_rotate g (glm_radians g y) (0, 1, 0)))
                    (glm_rotate g (glm_radians g x) (1, 0, 0)))
                  (glm_scale g scaleXYZ)))"
proof -
  let ?m = "glm_mul g
              (glm_mul g
                (glm_mul g
                  (glm_mul g (glm_translate g positionXYZ)
                     (glm_rotate g (glm_radians g z) (0, 0, 1)))
                  (glm_rotate g (glm_radians g y) (0, 1, 0)))
                (glm_rotate g (glm_radians g x) (1, 0, 0)))
              (glm_scale g scaleXYZ)"
  have "SetTransformations g scaleXYZ x y z positionXYZ s =
          s\<lparr>m_pShaderManager := Some (setMat4Value g_ModelName ?m sh)\<rparr>"
    using assms by (simp add: SetTransformations_def Let_def)
  moreover have "uniform_writes (setMat4Value g_ModelName ?m sh) =
                   uniform_writes sh @ [(''model'', Mat4Value ?m)]"
    by (simp add: setMat4Value_def set_uniform_def g_ModelName_def)
  moreover have "uniform (setMat4Value g_ModelName ?m sh) ''model'' = Some (Mat4Value ?m)"
    by (simp add: setMat4Value_def set_uniform_def g_ModelName_def uniform_def)
  ultimately show ?thesis by blast
qed

theorem SetTransformations_model_matrix_witness:
  "m_pShaderManager new_scene = Some \<lparr>uniform_writes = []\<rparr> \<and>
   (\<exists>sh'. SetTransformations exact_glm (2, 1, 1) 0 90 0 (5, 0, 0) new_scene =
            new_scene\<lparr>m_pShaderManager := Some sh'\<rparr> \<and>
          uniform sh' ''model'' =
            Some (Mat4Value ((0, 0, - 2, 0), (0, 1, 0, 0), (1, 0, 0, 0), (5, 0, 0, 1))) \<and>
          mat4_apply ((0, 0, - 2, 0), (0, 1, 0, 0), (1, 0, 0, 0), (5, 0, 0, 1)) (1, 0, 0, 1)
            = (5, 0, - 2, 1))"
proof -
  have sh: "m_pShaderManager new_scene = Some \<lparr>uniform_writes = []\<rparr>"
    using new_scene_facts by simp
  have ap: "mat4_apply ((0, 0, - 2, 0), (0, 1, 0, 0), (1, 0, 0, 0), (5, 0, 0, 1)) (1, 0, 0, 1)
            = (5, 0, - 2, 1)"
    by (simp add: mat4_apply_def vec4_axpy_def)
  from SetTransformations_model_matrix [OF sh, of exact_glm "(2, 1, 1)" 0 90 0 "(5, 0, 0)"]
  obtain sh' where "SetTransformations exact_glm (2, 1, 1) 0 90 0 (5, 0, 0) new_scene =
            new_scene\<lparr>m_pShaderManager := Some sh'\<rparr>"
    and "uniform sh' ''model'' =
            Some (Mat4Value ((0, 0, - 2, 0), (0, 1, 0, 0), (1, 0, 0, 0), (5, 0, 0, 1)))"
    unfolding exact_example_matrix by blast
  with sh ap show ?thesis by blast
qed

text \<open>
  C4. With a shader manager present:
  \<^item> \<open>SetShaderColor\<close>, on any state, appends the writes \<open>bUseTexture\<close> = 0 and
    \<open>objectColor\<close> and changes nothing else (nothing is printed);
  \<^item> \<open>SetShaderTexture\<close>, on any state, appends \<open>bUseTexture\<close> = 1 and
    \<open>objectTexture\<close> = the slot \<open>FindTextureSlot\<close> gives for the tag, and changes
    nothing else;
  \<^item> every run of draw-state calls returns, changes only the shader manager, and leaves
    \<open>bUseTexture\<close> at the value last-write-wins prescribes: 0 when the last
    \<open>SetShaderColor\<close> or \<open>SetShaderTexture\<close> call of the run is a \<open>SetShaderColor\<close>,
    1 when it is a \<open>SetShaderTexture\<close>, and the value before the run when there is
    neither;
  \<^item> a run that ends with \<open>SetShaderTexture\<close> leaves \<open>objectTexture\<close> at the slot of
    its tag;
  \<^item> in particular \<open>SetShaderColor\<close> then \<open>SetShaderTexture\<close> leaves 1 and the slot,
    \<open>SetShaderTexture\<close> then \<open>SetShaderColor\<close> leaves 0; for a registered tag the slot
    is the index of a registered slot carrying that tag.
\<close>

theorem use_texture_last_write_wins:
  assumes "m_pShaderManager s = Some sh"
  shows "SetShaderColor r gr b a s =
           s\<lparr>m_pShaderManager := Some (sh\<lparr>uniform_writes := uniform_writes sh @
              [(''bUseTexture'', IntValue 0), (''objectColor'', Vec4Value (r, gr, b, a))]\<rparr>)\<rparr> \<and>
         SetShaderTexture tg s =
           s\<lparr>m_pShaderManager := Some (sh\<lparr>uniform_writes := uniform_writes sh @
              [(''bUseTexture'', IntValue 1),
               (''objectTexture'', Sampler2DValue (FindTextureSlot s tg))]\<rparr>)\<rparr> \<and>
         (\<exists>sh'. run_draw_calls g cs s = Returns () (s\<lparr>m_pShaderManager := Some sh'\<rparr>) \<and>
                uniform sh' g_UseTextureName =
                  use_texture_after (uniform sh g_UseTextureName) cs) \<and>
         (list_all (\<lambda>c. \<not> writes_use_texture c) post \<longrightarrow>
            (\<exists>sh'. run_draw_calls g (pre @ Call_SetShaderColor r gr b a # post) s =
                     Returns () (s\<lparr>m_pShaderManager := Some sh'\<rparr>) \<and>
                   uniform sh' g_UseTextureName = Some (IntValue 0)) \<and>
            (\<exists>sh'. run_draw_calls g (pre @ Call_SetShaderTexture tg # post) s =
                     Returns () (s\<lparr>m_pShaderManager := Some sh'\<rparr>) \<and>
                   uniform sh' g_UseTextureName = Some (IntValue 1)) \<and>
            (\<exists>sh'. run_draw_calls g post s = Returns () (s\<lparr>m_pShaderManager := Some sh'\<rparr>) \<and>
                   uniform sh' g_UseTextureName = uniform sh g_UseTextureName)) \<and>
         (\<exists>sh'. run_draw_calls g (pre @ [Call_SetShaderTexture tg]) s =
                  Returns () (s\<lparr>m_pShaderManager := Some sh'\<rparr>) \<and>
                uniform sh' g_TextureValueName = Some (Sampler2DValue (FindTextureSlot s tg))) \<and>
         (\<exists>sh1 sh2.
            m_pShaderManager (SetShaderTexture tg (SetShaderColor r gr b a s)) = Some sh1 \<and>
            uniform sh1 g_UseTextureName = Some (IntValue 1) \<and>
            uniform sh1 g_TextureValueName = Some (Sampler2DValue (FindTextureSlot s tg)) \<and>
            m_pShaderManager (SetShaderColor r gr b a (SetShaderTexture tg s)) = Some sh2 \<and>
            uniform sh2 g_UseTextureName = Some (IntValue 0)) \<and>
         (table_ok s \<and> tg \<in> set (registered_tags s) \<longrightarrow>
            0 \<le> FindTextureSlot s tg \<and> FindTextureSlot s tg < m_loadedTextures s \<and>
            registered_tags s ! nat (FindTextureSlot s tg) = tg)"
proof -
  note color = SetShaderColor_writes [OF assms, of r gr b a]
  note texture = SetShaderTexture_writes [OF assms, of tg]
  note run = run_draw_calls_use_texture [OF assms]
  have any: "\<exists>sh'. run_draw_calls g cs s = Returns () (s\<lparr>m_pShaderManager := Some sh'\<rparr>) \<and>
                uniform sh' g_UseTextureName =
                  use_texture_after (uniform sh g_UseTextureName) cs"
    by (rule run)
  have last: "(\<exists>sh'. run_draw_calls g (pre @ Call_SetShaderColor r gr b a # post) s =
                     Returns () (s\<lparr>m_pShaderManager := Some sh'\<rparr>) \<and>
                   uniform sh' g_UseTextureName = Some (IntValue 0)) \<and>
            (\<exists>sh'. run_draw_calls g (pre @ Call_SetShaderTexture tg # post) s =
                     Returns () (s\<lparr>m_pShaderManager := Some sh'\<rparr>) \<and>
                   uniform sh' g_UseTextureName = Some (IntValue 1)) \<and>
            (\<exists>sh'. run_draw_calls g post s = Returns () (s\<lparr>m_pShaderManager := Some sh'\<rparr>) \<and>
                   uniform sh' g_UseTextureName = uniform sh g_UseTextureName)"
    if q: "list_all (\<lambda>c. \<not> writes_use_texture c) post"
    using run [of g "pre @ Call_SetShaderColor r gr b a # post"]
      run [of g "pre @ Call_SetShaderTexture tg # post"] run [of g post]
    by (simp only: use_texture_after_last [OF q] use_texture_after_quiet [OF q])
  note sampler = run_then_SetShaderTexture [OF assms, of g pre tg]
  let ?c = "SetShaderColor r gr b a s"
  have c: "m_pShaderManager ?c =
             Some (setVec4Value g_ColorValueName (r, gr, b, a) (setIntValue g_UseTextureName 0 sh))"
      "m_textureIDs ?c = m_textureIDs s" "m_loadedTextures ?c = m_loadedTextures s"
    using assms by (simp_all add: SetShaderColor_def)
  have slot: "FindTextureSlot ?c tg = FindTextureSlot s tg"
    by (rule FindTextureSlot_cong [OF c(2,3)])
  let ?sh1 = "setSampler2DValue g_TextureValueName (FindTextureSlot s tg)
               (setIntValue g_UseTextureName 1
                 (setVec4Value g_ColorValueName (r, gr, b, a) (setIntValue g_UseTextureName 0 sh)))"
  have ct: "m_pShaderManager (SetShaderTexture tg ?c) = Some ?sh1"
    using c(1) slot by (simp add: SetShaderTexture_def Let_def)
  have u1: "uniform ?sh1 g_UseTextureName = Some (IntValue 1)"
    and u2: "uniform ?sh1 g_TextureValueName = Some (Sampler2DValue (FindTextureSlot s tg))"
    by (simp_all add: uniform_def setSampler2DValue_def setIntValue_def setVec4Value_def
        set_uniform_def g_UseTextureName_def g_TextureValueName_def g_ColorValueName_def)
  let ?sh2 = "setVec4Value g_ColorValueName (r, gr, b, a)
               (setIntValue g_UseTextureName 0
                 (setSampler2DValue g_TextureValueName (FindTextureSlot s tg)
                   (setIntValue g_UseTextureName 1 sh)))"
  have tc: "m_pShaderManager (SetShaderColor r gr b a (SetShaderTexture tg s)) = Some ?sh2"
    using assms by (simp add: SetShaderTexture_def SetShaderColor_def Let_def)
  have u3: "uniform ?sh2 g_UseTextureName = Some (IntValue 0)"
    by (simp add: uniform_def setSampler2DValue_def setIntValue_def setVec4Value_def
        set_uniform_def g_UseTextureName_def g_TextureValueName_def g_ColorValueName_def)
  have two: "\<exists>sh1 sh2.
            m_pShaderManager (SetShaderTexture tg (SetShaderColor r gr b a s)) = Some sh1 \<and>
            uniform sh1 g_UseTextureName = Some (IntValue 1) \<and>
            uniform sh1 g_TextureValueName = Some (Sampler2DValue (FindTextureSlot s tg)) \<and>
            m_pShaderManager (SetShaderColor r gr b a (SetShaderTexture tg s)) = Some sh2 \<and>
            uniform sh2 g_UseTextureName = Some (IntValue 0)"
    using ct u1 u2 tc u3 by blast
  have res: "table_ok s \<and> tg \<in> set (registered_tags s) \<longrightarrow>
              0 \<le> FindTextureSlot s tg \<and> FindTextureSlot s tg < m_loadedTextures s \<and>
              registered_tags s ! nat (FindTextureSlot s tg) = tg"
    using Find_first_registered by blast
  from last have last': "list_all (\<lambda>c. \<not> writes_use_texture c) post \<longrightarrow>
            (\<exists>sh'. run_draw_calls g (pre @ Call_SetShaderColor r gr b a # post) s =
                     Returns () (s\<lparr>m_pShaderManager := Some sh'\<rparr>) \<and>
                   uniform sh' g_UseTextureName = Some (IntValue 0)) \<and>
            (\<exists>sh'. run_draw_calls g (pre @ Call_SetShaderTexture tg # post) s =
                     Returns () (s\<lparr>m_pShaderManager := Some sh'\<rparr>) \<and>
                   uniform sh' g_UseTextureName = Some (IntValue 1)) \<and>
            (\<exists>sh'. run_draw_calls g post s = Returns () (s\<lparr>m_pShaderManager := Some sh'\<rparr>) \<and>
                   uniform sh' g_UseTextureName = uniform sh g_UseTextureName)"
    by (rule impI)
  show ?thesis
    by (intro conjI color texture any last' sampler two res)
qed

theorem use_texture_last_write_wins_witness:
  "m_pShaderManager prepared_scene = Some \<lparr>uniform_writes = []\<rparr> \<and>
   SetShaderColor 1 0 0 1 prepared_scene =
     prepared_scene\<lparr>m_pShaderManager := Some \<lparr>uniform_writes =
        [(''bUseTexture'', IntValue 0), (''objectColor'', Vec4Value (1, 0, 0, 1))]\<rparr>\<rparr> \<and>
   SetShaderTexture ''wood2'' prepared_scene =
     prepared_scene\<lparr>m_pShaderManager := Some \<lparr>uniform_writes =
        [(''bUseTexture'', IntValue 1), (''objectTexture'', Sampler2DValue 4)]\<rparr>\<rparr> \<and>
   (\<exists>sh'. run_draw_calls exact_glm
            [Call_SetShaderTexture ''wood2'', Call_SetTextureUVScale 2 2,
             Call_SetShaderColor 1 0 0 1] prepared_scene =
            Returns () (prepared_scene\<lparr>m_pShaderManager := Some sh'\<rparr>) \<and>
          uniform sh' g_UseTextureName = Some (IntValue 0)) \<and>
   (\<exists>sh'. run_draw_calls exact_glm
            [Call_SetShaderColor 1 0 0 1, Call_SetTextureUVScale 2 2,
             Call_SetShaderTexture ''wood2''] prepared_scene =
            Returns () (prepared_scene\<lparr>m_pShaderManager := Some sh'\<rparr>) \<and>
          uniform sh' g_UseTextureName = Some (IntValue 1) \<and>
          uniform sh' g_TextureValueName = Some (Sampler2DValue 4))"
proof -
  have sh: "m_pShaderManager prepared_scene = Some \<lparr>uniform_writes = []\<rparr>"
    using prepared_scene_facts by simp
  have q: "list_all (\<lambda>c. \<not> writes_use_texture c) []" by simp
  note t1 = use_texture_last_write_wins [OF sh, of 1 0 0 1 "''wood2''" exact_glm "[]" "[]"
      "[Call_SetShaderTexture ''wood2'', Call_SetTextureUVScale 2 2]"]
  note t2 = use_texture_last_write_wins [OF sh, of 1 0 0 1 "''wood2''" exact_glm "[]" "[]"
      "[Call_SetShaderColor 1 0 0 1, Call_SetTextureUVScale 2 2]"]
  from t1 have "SetShaderColor 1 0 0 1 prepared_scene =
     prepared_scene\<lparr>m_pShaderManager := Some (\<lparr>uniform_writes = []\<rparr>\<lparr>uniform_writes :=
        uniform_writes \<lparr>uniform_writes = []\<rparr> @
        [(''bUseTexture'', IntValue 0), (''objectColor'', Vec4Value (1, 0, 0, 1))]\<rparr>)\<rparr>"
    by (rule conjunct1)
  then have color: "SetShaderColor 1 0 0 1 prepared_scene =
     prepared_scene\<lparr>m_pShaderManager := Some \<lparr>uniform_writes =
        [(''bUseTexture'', IntValue 0), (''objectColor'', Vec4Value (1, 0, 0, 1))]\<rparr>\<rparr>"
    by simp
  from t1 [THEN conjunct2, THEN conjunct1] have "SetShaderTexture ''wood2'' prepared_scene =
     prepared_scene\<lparr>m_pShaderManager := Some (\<lparr>uniform_writes = []\<rparr>\<lparr>uniform_writes :=
        uniform_writes \<lparr>uniform_writes = []\<rparr> @
        [(''bUseTexture'', IntValue 1),
         (''objectTexture'', Sampler2DValue (FindTextureSlot prepared_scene ''wood2''))]\<rparr>)\<rparr>"
    .
  then have texture: "SetShaderTexture ''wood2'' prepared_scene =
     prepared_scene\<lparr>m_pShaderManager := Some \<lparr>uniform_writes =
        [(''bUseTexture'', IntValue 1), (''objectTexture'', Sampler2DValue 4)]\<rparr>\<rparr>"
    by (simp add: prepared_scene_wood2)
  note d1 = t1 [THEN conjunct2, THEN conjunct2, THEN conjunct2, THEN conjunct1, THEN mp, OF q]
  note d2 = t2 [THEN conjunct2, THEN conjunct2, THEN conjunct2, THEN conjunct1, THEN mp, OF q]
  from d1 [THEN conjunct1] have "\<exists>sh'. run_draw_calls exact_glm
            ([Call_SetShaderTexture ''wood2'', Call_SetTextureUVScale 2 2] @
             Call_SetShaderColor 1 0 0 1 # []) prepared_scene =
            Returns () (prepared_scene\<lparr>m_pShaderManager := Some sh'\<rparr>) \<and>
          uniform sh' g_UseTextureName = Some (IntValue 0)"
    .
  then have tuc: "\<exists>sh'. run_draw_calls exact_glm
            [Call_SetShaderTexture ''wood2'', Call_SetTextureUVScale 2 2,
             Call_SetShaderColor 1 0 0 1] prepared_scene =
            Returns () (prepared_scene\<lparr>m_pShaderManager := Some sh'\<rparr>) \<and>
          uniform sh' g_UseTextureName = Some (IntValue 0)"
    by (simp only: append_Cons append_Nil)
  from d2 [THEN conjunct2, THEN conjunct1] have "\<exists>sh'. run_draw_calls exact_glm
            ([Call_SetShaderColor 1 0 0 1, Call_SetTextureUVScale 2 2] @
             Call_SetShaderTexture ''wood2'' # []) prepared_scene =
            Returns () (prepared_scene\<lparr>m_pShaderManager := Some sh'\<rparr>) \<and>
          uniform sh' g_UseTextureName = Some (IntValue 1)"
    .
  then obtain sh1 where a: "run_draw_calls exact_glm
            [Call_SetShaderColor 1 0 0 1, Call_SetTextureUVScale 2 2,
             Call_SetShaderTexture ''wood2''] prepared_scene =
            Returns () (prepared_scene\<lparr>m_pShaderManager := Some sh1\<rparr>)"
       "uniform sh1 g_UseTextureName = Some (IntValue 1)"
    by (simp only: append_Cons append_Nil) blast
  from t2 [THEN conjunct2, THEN conjunct2, THEN conjunct2, THEN conjunct2, THEN conjunct1]
  have "\<exists>sh'. run_draw_calls exact_glm
            ([Call_SetShaderColor 1 0 0 1, Call_SetTextureUVScale 2 2] @
             [Call_SetShaderTexture ''wood2'']) prepared_scene =
            Returns () (prepared_scene\<lparr>m_pShaderManager := Some sh'\<rparr>) \<and>
          uniform sh' g_TextureValueName =
            Some (Sampler2DValue (FindTextureSlot prepared_scene ''wood2''))"
    .
  then obtain sh2 where b: "run_draw_calls exact_glm
            [Call_SetShaderColor 1 0 0 1, Call_SetTextureUVScale 2 2,
             Call_SetShaderTexture ''wood2''] prepared_scene =
            Returns () (prepared_scene\<lparr>m_pShaderManager := Some sh2\<rparr>)"
       "uniform sh2 g_TextureValueName = Some (Sampler2DValue 4)"
    by (simp only: append_Cons append_Nil prepared_scene_wood2) blast
  from a(1) b(1) have "prepared_scene\<lparr>m_pShaderManager := Some sh1\<rparr> =
                       prepared_scene\<lparr>m_pShaderManager := Some sh2\<rparr>"
    by simp
  then have "m_pShaderManager (prepared_scene\<lparr>m_pShaderManager := Some sh1\<rparr>) =
             m_pShaderManager (prepared_scene\<lparr>m_pShaderManager := Some sh2\<rparr>)"
    by (rule arg_cong)
  then have "sh1 = sh2" by simp
  with a b have cut: "\<exists>sh'. run_draw_calls exact_glm
            [Call_SetShaderColor 1 0 0 1, Call_SetTextureUVScale 2 2,
             Call_SetShaderTexture ''wood2''] prepared_scene =
            Returns () (prepared_scene\<lparr>m_pShaderManager := Some sh'\<rparr>) \<and>
          uniform sh' g_UseTextureName = Some (IntValue 1) \<and>
          uniform sh' g_TextureValueName = Some (Sampler2DValue 4)"
    by blast
  from sh color texture tuc cut show ?thesis by (intro conjI)
qed

text \<open>
  C5. Starting from an empty table, after at most sixteen \<open>CreateGLTexture\<close> calls
  that all decode, with pairwise distinct tags, every call has returned \<open>true\<close>; the
  tag of the \<open>i\<close>-th call resolves to slot \<open>i\<close> with \<open>FindTextureSlot\<close> and to the
  ID stored in slot \<open>i\<close> (read as an \<open>int\<close>) with \<open>FindTextureID\<close>; the stored IDs
  are the names the driver generated, in order; and a tag that was not registered
  resolves to \<open>-1\<close> with both.
\<close>

theorem Find_consistent_with_registration_order:
  assumes "table_ok s0" and "m_loadedTextures s0 = 0"
    and "length calls \<le> 16" and "distinct (map snd calls)"
    and "list_all (\<lambda>c. stbi_load co (fst c) \<noteq> None) calls"
  shows "\<exists>s. CreateGLTextures co calls s0 = Returns (replicate (length calls) True) s \<and>
           m_loadedTextures s = int (length calls) \<and>
           map ID (take (length calls) (m_textureIDs s)) =
             generated_names (drop (length (gl s0)) (gl s)) \<and>
           (\<forall>i<length calls.
              FindTextureSlot s (snd (calls ! i)) = int i \<and>
              FindTextureID s (snd (calls ! i)) = sint (ID (m_textureIDs s ! i))) \<and>
           (\<forall>tg. tg \<notin> set (map snd calls) \<longrightarrow>
              FindTextureSlot s tg = - 1 \<and> FindTextureID s tg = - 1)"
proof -
  from assms(2,3) have "m_loadedTextures s0 + int (length calls) \<le> 16" by simp
  from CreateGLTextures_registers [OF assms(1) this assms(5)]
  obtain s g where s: "CreateGLTextures co calls s0 = Returns (replicate (length calls) True) s"
      "table_ok s" "m_loadedTextures s = m_loadedTextures s0 + int (length calls)"
      "registered_tags s = registered_tags s0 @ map snd calls"
      "gl s = gl s0 @ g" "registered_IDs s = registered_IDs s0 @ generated_names g"
    by blast
  have tags: "registered_tags s = map snd calls"
    using s(4) assms(2) by (simp add: registered_tags_empty)
  have n: "m_loadedTextures s = int (length calls)" using s(3) assms(2) by simp
  have ids: "map ID (take (length calls) (m_textureIDs s)) =
      generated_names (drop (length (gl s0)) (gl s))"
    using s(5,6) assms(2) n by (simp add: registered_IDs_empty registered_IDs_def)
  have hit: "FindTextureSlot s (snd (calls ! i)) = int i \<and>
      FindTextureID s (snd (calls ! i)) = sint (ID (m_textureIDs s ! i))"
    if i: "i < length calls" for i
  proof -
    have "\<forall>j<i. registered_tags s ! j \<noteq> snd (calls ! i)"
      using assms(4) i tags by (auto simp: distinct_conv_nth)
    moreover have "registered_tags s ! i = snd (calls ! i)" using i tags by simp
    moreover have "i < length (registered_tags s)" using i tags by simp
    ultimately show ?thesis using Find_registered [OF s(2)] by blast
  qed
  have miss: "FindTextureSlot s tg = - 1 \<and> FindTextureID s tg = - 1"
    if "tg \<notin> set (map snd calls)" for tg
    using Find_unregistered [OF s(2), of tg] that tags by simp
  show ?thesis
    using s(1) n ids hit miss by blast
qed

theorem Find_consistent_with_registration_order_witness:
  "\<exists>s. CreateGLTextures example_collaborators
          [(''../5-2_Assignment/textures/wood1.jpg'', ''wood1''),
           (''../5-2_Assignment/textures/wood2.jpg'', ''wood2'')] new_scene
        = Returns [True, True] s \<and>
       FindTextureSlot s ''wood1'' = 0 \<and> FindTextureSlot s ''wood2'' = 1 \<and>
       FindTextureID s ''wood2'' = sint (ID (m_textureIDs s ! 1)) \<and>
       map ID (take 2 (m_textureIDs s)) = generated_names (gl s) \<and>
       FindTextureSlot s ''missing'' = - 1 \<and> FindTextureID s ''missing'' = - 1"
proof -
  let ?calls = "[(''../5-2_Assignment/textures/wood1.jpg'', ''wood1''),
           (''../5-2_Assignment/textures/wood2.jpg'', ''wood2'')]"
  have ok: "table_ok new_scene" and z: "m_loadedTextures new_scene = 0"
    using new_scene_facts by simp_all
  have len: "length ?calls \<le> 16" by simp
  have d: "distinct (map snd ?calls)" by simp
  have dec: "list_all (\<lambda>c. stbi_load example_collaborators (fst c) \<noteq> None) ?calls"
    by (simp add: example_collaborators_def)
  from Find_consistent_with_registration_order [OF ok z len d dec]
  obtain s where s: "CreateGLTextures example_collaborators ?calls new_scene =
         Returns (replicate (length ?calls) True) s"
     "map ID (take (length ?calls) (m_textureIDs s)) =
             generated_names (drop (length (gl new_scene)) (gl s))"
     "\<forall>i<length ?calls.
              FindTextureSlot s (snd (?calls ! i)) = int i \<and>
              FindTextureID s (snd (?calls ! i)) = sint (ID (m_textureIDs s ! i))"
     "\<forall>tg. tg \<notin> set (map snd ?calls) \<longrightarrow>
              FindTextureSlot s tg = - 1 \<and> FindTextureID s tg = - 1"
    by blast
  have "(0::nat) < length ?calls" by simp
  with s(3) have "FindTextureSlot s (snd (?calls ! 0)) = int 0" by blast
  then have a0: "FindTextureSlot s ''wood1'' = 0" by simp
  have "(1::nat) < length ?calls" by simp
  with s(3) have "FindTextureSlot s (snd (?calls ! 1)) = int 1 \<and>
     FindTextureID s (snd (?calls ! 1)) = sint (ID (m_textureIDs s ! 1))" by blast
  then have a1: "FindTextureSlot s ''wood2'' = 1"
    "FindTextureID s ''wood2'' = sint (ID (m_textureIDs s ! 1))" by simp_all
  from s(4) have b: "FindTextureSlot s ''missing'' = - 1 \<and> FindTextureID s ''missing'' = - 1"
    by simp
  have r: "replicate (length ?calls) True = [True, True]" by (simp add: numeral_2_eq_2)
  have g: "map ID (take 2 (m_textureIDs s)) = generated_names (gl s)"
    using s(2) new_scene_facts by (simp add: numeral_2_eq_2)
  from s(1) r a0 a1 b g show ?thesis by auto
qed

text \<open>
  C6. \<open>DestroyGLTextures\<close> leaves no texture registered, running it a second time
  changes nothing (neither the table nor the OpenGL context nor anything else), and
  afterwards \<open>FindTextureSlot\<close> and \<open>FindTextureID\<close> return \<open>-1\<close> for every tag.
\<close>

theorem DestroyGLTextures_idempotent:
  assumes "table_ok s"
  shows "DestroyGLTextures (DestroyGLTextures s) = DestroyGLTextures s \<and>
         m_loadedTextures (DestroyGLTextures s) = 0 \<and>
         registered_tags (DestroyGLTextures s) = [] \<and>
         table_ok (DestroyGLTextures s) \<and>
         FindTextureSlot (DestroyGLTextures s) tg = - 1 \<and>
         FindTextureID (DestroyGLTextures s) tg = - 1"
proof -
  have zero: "m_loadedTextures (DestroyGLTextures s) = 0"
    by (simp add: DestroyGLTextures_def)
  have "DestroyGLTextures_for 0 (DestroyGLTextures s) = DestroyGLTextures s"
    using zero by (rule DestroyGLTextures_for_empty)
  then have twice: "DestroyGLTextures (DestroyGLTextures s) = DestroyGLTextures s"
    using zero by (subst DestroyGLTextures_def) simp
  have ok: "table_ok (DestroyGLTextures s)"
    using assms DestroyGLTextures_for_keeps [of 0 s]
    by (simp add: table_ok_def DestroyGLTextures_def)
  show ?thesis
    using twice zero ok Find_empty [OF zero] registered_tags_empty [OF zero] by simp
qed

theorem DestroyGLTextures_idempotent_witness:
  "table_ok prepared_scene \<and> m_loadedTextures prepared_scene = 16 \<and>
   DestroyGLTextures (DestroyGLTextures prepared_scene) = DestroyGLTextures prepared_scene \<and>
   m_loadedTextures (DestroyGLTextures prepared_scene) = 0 \<and>
   FindTextureSlot (DestroyGLTextures prepared_scene) ''wood2'' = - 1 \<and>
   FindTextureID (DestroyGLTextures prepared_scene) ''wood2'' = - 1"
proof -
  have ok: "table_ok prepared_scene" using prepared_scene_facts by simp
  from DestroyGLTextures_idempotent [OF ok, of "''wood2''"] prepared_scene_facts
  show ?thesis by simp
qed

text \<open>
  C7. When the file does not decode, \<open>CreateGLTexture\<close> returns \<open>false\<close>, sends
  nothing to OpenGL and leaves the slots, the count, the materials and the shader manager
  as they were (it only prints a line); the table invariant and the results of both
  lookups are the same after the call as before, and a later call with a file that
  decodes, while a slot is free, registers its tag behind the ones already there.
\<close>

theorem CreateGLTexture_decode_failure:
  assumes "stbi_load co filename = None"
  shows "\<exists>s'. CreateGLTexture co filename tg s = Returns False s' \<and>
           gl s' = gl s \<and> m_textureIDs s' = m_textureIDs s \<and>
           m_loadedTextures s' = m_loadedTextures s \<and>
           m_objectMaterials s' = m_objectMaterials s \<and>
           m_pShaderManager s' = m_pShaderManager s \<and>
           table_ok s' = table_ok s \<and>
           FindTextureSlot s' t = FindTextureSlot s t \<and>
           FindTextureID s' t = FindTextureID s t \<and>
           (table_ok s \<and> m_loadedTextures s < 16 \<and> stbi_load co filename2 \<noteq> None \<longrightarrow>
              (\<exists>s''. CreateGLTexture co filename2 tg2 s' = Returns True s'' \<and>
                     registered_tags s'' = registered_tags s @ [tg2]))"
proof -
  let ?s' = "s\<lparr>console := console s @ [''Failed to load texture:'' @ filename]\<rparr>"
  have r: "CreateGLTexture co filename tg s = Returns False ?s'"
    using assms by (simp add: CreateGLTexture_def)
  have a: "m_textureIDs ?s' = m_textureIDs s" and b: "m_loadedTextures ?s' = m_loadedTextures s"
    by simp_all
  have slot: "FindTextureSlot ?s' t = FindTextureSlot s t"
    by (simp only: FindTextureSlot_def FindTextureSlot_while_cong [OF a b])
  have ident: "FindTextureID ?s' t = FindTextureID s t"
    by (simp only: FindTextureID_def FindTextureID_while_cong [OF a b])
  have ok: "table_ok ?s' = table_ok s" by (simp add: table_ok_def)
  have tags: "registered_tags ?s' = registered_tags s" by (simp add: registered_tags_def)
  have later: "\<exists>s''. CreateGLTexture co filename2 tg2 ?s' = Returns True s'' \<and>
                     registered_tags s'' = registered_tags s @ [tg2]"
    if h: "table_ok s \<and> m_loadedTextures s < 16 \<and> stbi_load co filename2 \<noteq> None"
  proof -
    from h obtain img where dec: "stbi_load co filename2 = Some img" by auto
    from h ok have ok': "table_ok ?s'" by simp
    from h have room: "m_loadedTextures ?s' < 16" by simp
    from CreateGLTexture_registers [OF ok' room dec, of tg2] tags
    show ?thesis by auto
  qed
  show ?thesis
    using r slot ident ok later by (intro exI [of _ ?s']) simp
qed

theorem CreateGLTexture_decode_failure_witness:
  "stbi_load example_collaborators ''textures/absent.png'' = None \<and>
   (\<exists>s'. CreateGLTexture example_collaborators ''textures/absent.png'' ''absent'' new_scene
            = Returns False s' \<and>
          gl s' = gl new_scene \<and> m_textureIDs s' = m_textureIDs new_scene \<and>
          m_loadedTextures s' = 0 \<and> table_ok s' \<and>
          FindTextureSlot s' ''wood2'' = FindTextureSlot new_scene ''wood2'' \<and>
          (\<exists>s''. CreateGLTexture example_collaborators
                   ''../5-2_Assignment/textures/wood1.jpg'' ''wood1'' s' = Returns True s'' \<and>
                 registered_tags s'' = [''wood1'']))"
proof -
  have none: "stbi_load example_collaborators ''textures/absent.png'' = None"
    by (simp add: example_collaborators_def)
  have dec: "stbi_load example_collaborators ''../5-2_Assignment/textures/wood1.jpg'' \<noteq> None"
    by (simp add: example_collaborators_def)
  have tags: "registered_tags new_scene = []"
    using new_scene_facts by (simp add: registered_tags_empty)
  from CreateGLTexture_decode_failure [OF none, of "''absent''" new_scene "''wood2''"
      "''../5-2_Assignment/textures/wood1.jpg''" "''wood1''"]
  obtain s' where s': "CreateGLTexture example_collaborators ''textures/absent.png'' ''absent''
        new_scene = Returns False s'"
      "gl s' = gl new_scene" "m_textureIDs s' = m_textureIDs new_scene"
      "m_loadedTextures s' = m_loadedTextures new_scene" "table_ok s' = table_ok new_scene"
      "FindTextureSlot s' ''wood2'' = FindTextureSlot new_scene ''wood2''"
      "table_ok new_scene \<and> m_loadedTextures new_scene < 16 \<and>
         stbi_load example_collaborators ''../5-2_Assignment/textures/wood1.jpg'' \<noteq> None \<longrightarrow>
         (\<exists>s''. CreateGLTexture example_collaborators
                   ''../5-2_Assignment/textures/wood1.jpg'' ''wood1'' s' = Returns True s'' \<and>
                 registered_tags s'' = registered_tags new_scene @ [''wood1''])"
    by blast
  from s'(7) dec new_scene_facts tags
  have "\<exists>s''. CreateGLTexture example_collaborators
                   ''../5-2_Assignment/textures/wood1.jpg'' ''wood1'' s' = Returns True s'' \<and>
                 registered_tags s'' = [''wood1'']"
    by simp
  with none s'(1-6) new_scene_facts show ?thesis by auto
qed

text \<open>
  C8. With a shader manager present and a tag that is not registered,
  \<open>SetShaderTexture\<close> returns, having written \<open>bUseTexture\<close> = 1 and then
  \<open>objectTexture\<close> = -1 and nothing else.
\<close>

theorem SetShaderTexture_unregistered:
  assumes "m_pShaderManager s = Some sh" and "table_ok s"
    and "tg \<notin> set (registered_tags s)"
  shows "\<exists>sh'. SetShaderTexture tg s = s\<lparr>m_pShaderManager := Some sh'\<rparr> \<and>
           uniform_writes sh' = uniform_writes sh @
             [(''bUseTexture'', IntValue 1), (''objectTexture'', Sampler2DValue (- 1))] \<and>
           uniform sh' g_UseTextureName = Some (IntValue 1) \<and>
           uniform sh' g_TextureValueName = Some (Sampler2DValue (- 1))"
proof -
  have miss: "FindTextureSlot s tg = - 1" by (rule Find_unregistered(1) [OF assms(2,3)])
  let ?sh' = "setSampler2DValue g_TextureValueName (- 1) (setIntValue g_UseTextureName 1 sh)"
  have "SetShaderTexture tg s = s\<lparr>m_pShaderManager := Some ?sh'\<rparr>"
    using assms(1) miss by (simp add: SetShaderTexture_def Let_def)
  moreover have "uniform_writes ?sh' = uniform_writes sh @
             [(''bUseTexture'', IntValue 1), (''objectTexture'', Sampler2DValue (- 1))]"
    by (simp add: setSampler2DValue_def setIntValue_def set_uniform_def
        g_UseTextureName_def g_TextureValueName_def)
  moreover have "uniform ?sh' g_UseTextureName = Some (IntValue 1)"
    by (simp add: uniform_def setSampler2DValue_def setIntValue_def set_uniform_def
        g_UseTextureName_def g_TextureValueName_def)
  moreover have "uniform ?sh' g_TextureValueName = Some (Sampler2DValue (- 1))"
    by (simp add: uniform_def setSampler2DValue_def setIntValue_def set_uniform_def
        g_UseTextureName_def g_TextureValueName_def)
  ultimately show ?thesis by blast
qed

theorem SetShaderTexture_unregistered_witness:
  "m_pShaderManager prepared_scene = Some \<lparr>uniform_writes = []\<rparr> \<and>
   table_ok prepared_scene \<and>
   (\<exists>sh'. SetShaderTexture ''marble'' prepared_scene = prepared_scene\<lparr>m_pShaderManager := Some sh'\<rparr> \<and>
      uniform_writes sh' =
        [(''bUseTexture'', IntValue 1), (''objectTexture'', Sampler2DValue (- 1))] \<and>
      uniform sh' g_UseTextureName = Some (IntValue 1) \<and>
      uniform sh' g_TextureValueName = Some (Sampler2DValue (- 1)))"
proof -
  have sh: "m_pShaderManager prepared_scene = Some \<lparr>uniform_writes = []\<rparr>"
    and ok: "table_ok prepared_scene"
    and tags: "registered_tags prepared_scene = map snd scene_textures"
    using prepared_scene_facts by simp_all
  have miss: "''marble'' \<notin> set (registered_tags prepared_scene)"
    by (simp add: tags scene_textures_def)
  from SetShaderTexture_unregistered [OF sh ok miss]
  show ?thesis using sh ok by simp
qed

text \<open>
  C9. A \<open>CreateGLTexture\<close> call that returns \<open>true\<close> sets the wrap mode exactly
  twice, once for S and once for T, both to the same mode, which depends on the tag alone:
  clamp-to-edge for \<open>"panda"\<close> and \<open>"thinkpad"\<close>, repeat for every other tag.
\<close>

theorem CreateGLTexture_wrap_mode:
  assumes "CreateGLTexture co filename tg s = Returns True s'"
  shows "filter is_wrap_call (drop (length (gl s)) (gl s')) =
           [glTexParameteri GL_TEXTURE_WRAP_S
              (if tg = ''panda'' \<or> tg = ''thinkpad'' then GL_CLAMP_TO_EDGE else GL_REPEAT),
            glTexParameteri GL_TEXTURE_WRAP_T
              (if tg = ''panda'' \<or> tg = ''thinkpad'' then GL_CLAMP_TO_EDGE else GL_REPEAT)]"
proof (cases "stbi_load co filename")
  case None
  with assms show ?thesis by (simp add: CreateGLTexture_def)
next
  case (Some img)
  with assms have "gl s' = gl s @
       [glGenTextures (gl_new_name co (gl s)),
        glBindTexture (gl_new_name co (gl s)),
        glTexParameteri GL_TEXTURE_WRAP_S
          (if tg = ''panda'' \<or> tg = ''thinkpad'' then GL_CLAMP_TO_EDGE else GL_REPEAT),
        glTexParameteri GL_TEXTURE_WRAP_T
          (if tg = ''panda'' \<or> tg = ''thinkpad'' then GL_CLAMP_TO_EDGE else GL_REPEAT),
        glTexParameteri GL_TEXTURE_MIN_FILTER GL_LINEAR,
        glTexParameteri GL_TEXTURE_MAG_FILTER GL_LINEAR,
        glTexImage2D (if colorChannels img = 4 then GL_RGBA else GL_RGB)
          (width img) (height img) (image_data img),
        glGenerateMipmap,
        glBindTexture 0]"
    by (auto simp: CreateGLTexture_def Let_def split: if_splits)
  then show ?thesis by simp
qed

theorem CreateGLTexture_wrap_mode_witness:
  "(\<exists>s'. CreateGLTexture example_collaborators ''../5-2_Assignment/textures/panda.png''
            ''panda'' new_scene = Returns True s' \<and>
          filter is_wrap_call (drop (length (gl new_scene)) (gl s')) =
            [glTexParameteri GL_TEXTURE_WRAP_S GL_CLAMP_TO_EDGE,
             glTexParameteri GL_TEXTURE_WRAP_T GL_CLAMP_TO_EDGE]) \<and>
   (\<exists>s'. CreateGLTexture example_collaborators ''../5-2_Assignment/textures/wood1.jpg''
            ''wood1'' new_scene = Returns True s' \<and>
          filter is_wrap_call (drop (length (gl new_scene)) (gl s')) =
            [glTexParameteri GL_TEXTURE_WRAP_S GL_REPEAT,
             glTexParameteri GL_TEXTURE_WRAP_T GL_REPEAT])"
proof -
  have ok: "table_ok new_scene" and room: "m_loadedTextures new_scene < 16"
    using new_scene_facts by simp_all
  have d1: "stbi_load example_collaborators ''../5-2_Assignment/textures/panda.png''
              = Some example_image"
    and d2: "stbi_load example_collaborators ''../5-2_Assignment/textures/wood1.jpg''
              = Some example_image"
    by (simp_all add: example_collaborators_def)
  from CreateGLTexture_registers [OF ok room d1, of "''panda''"]
  obtain s1 where s1: "CreateGLTexture example_collaborators
      ''../5-2_Assignment/textures/panda.png'' ''panda'' new_scene = Returns True s1"
    by blast
  from CreateGLTexture_registers [OF ok room d2, of "''wood1''"]
  obtain s2 where s2: "CreateGLTexture example_collaborators
      ''../5-2_Assignment/textures/wood1.jpg'' ''wood1'' new_scene = Returns True s2"
    by blast
  from CreateGLTexture_wrap_mode [OF s1] CreateGLTexture_wrap_mode [OF s2] s1 s2
  show ?thesis by simp
qed

text \<open>
  C10. With a null shader manager, \<open>SetTransformations\<close>, \<open>SetShaderColor\<close>,
  \<open>SetShaderTexture\<close> and \<open>SetTextureUVScale\<close> each return with the state
  unchanged.
\<close>

theorem null_shader_manager_no_op:
  assumes "m_pShaderManager s = None"
  shows "SetTransformations g scaleXYZ x y z positionXYZ s = s \<and>
         SetShaderColor r gr b a s = s \<and>
         SetShaderTexture tg s = s \<and>
         SetTextureUVScale u v s = s"
  using assms
  by (simp add: SetTransformations_def SetShaderColor_def SetShaderTexture_def
      SetTextureUVScale_def Let_def)

theorem null_shader_manager_no_op_witness:
  "m_pShaderManager null_scene = None \<and>
   SetTransformations exact_glm (2, 1, 1) 0 90 0 (5, 0, 0) null_scene = null_scene \<and>
   SetShaderColor 1 0 0 1 null_scene = null_scene \<and>
   SetShaderTexture ''wood1'' null_scene = null_scene \<and>
   SetTextureUVScale 2 2 null_scene = null_scene"
proof -
  have n: "m_pShaderManager null_scene = None"
    by (simp add: null_scene_def SceneManager_ctor_def)
  from null_shader_manager_no_op [OF n] n show ?thesis by simp
qed

end
